theory Spec2Isabelle
  imports Complex_Main "HOL-Library.Sublist" "HOL-Library.Multiset"
begin

section \<open>Strings and JavaScript values\<close>

text \<open>
  Strings are byte strings (UTF-8). An optional field of a JavaScript object
  (\<^verbatim>\<open>string | undefined\<close>, or a nullable column) is a \<open>string option\<close>.
  \<open>truthy\<close> is JavaScript's truthiness of such a value: \<^verbatim>\<open>undefined\<close>,
  \<^verbatim>\<open>null\<close> and the empty string are falsy.
\<close>

definition truthy :: "string option \<Rightarrow> bool" where
  "truthy v = (case v of None \<Rightarrow> False | Some s \<Rightarrow> s \<noteq> [])"

text \<open>\<^verbatim>\<open>v || null\<close>: a falsy value becomes null.\<close>

definition or_null :: "string option \<Rightarrow> string option" where
  "or_null v = (if truthy v then v else None)"

text \<open>\<^verbatim>\<open>v || d\<close> inside a template or an object literal: a falsy value becomes the default.\<close>

definition or_default :: "string option \<Rightarrow> string \<Rightarrow> string" where
  "or_default v d = (case v of None \<Rightarrow> d | Some s \<Rightarrow> if s = [] then d else s)"

definition nl :: string where
  "nl = [CHR 0x0A]"

text \<open>The bullet U+2022 of the listings, as its three UTF-8 bytes.\<close>

definition bullet :: string where
  "bullet = [CHR 0xE2, CHR 0x80, CHR 0xA2]"

text \<open>\<^verbatim>\<open>Array.prototype.join\<close>.\<close>

fun join :: "string \<Rightarrow> string list \<Rightarrow> string" where
  "join sep [] = []"
| "join sep [x] = x"
| "join sep (x # y # ys) = x @ sep @ join sep (y # ys)"

text \<open>Decimal rendering of a number inside a template string.\<close>

definition digit_char :: "nat \<Rightarrow> char" where
  "digit_char d = ''0123456789'' ! d"

fun show_nat :: "nat \<Rightarrow> string" where
  "show_nat n = (if n < 10 then [digit_char n] else show_nat (n div 10) @ [digit_char (n mod 10)])"

declare show_nat.simps [simp del]

definition show_int :: "int \<Rightarrow> string" where
  "show_int i = (if i < 0 then CHR ''-'' # show_nat (nat (- i)) else show_nat (nat i))"

text \<open>\<^verbatim>\<open>s.replace('.', '')\<close>: the first dot is removed, the others stay.\<close>

fun replace_first_dot :: "string \<Rightarrow> string" where
  "replace_first_dot [] = []"
| "replace_first_dot (c # cs) = (if c = CHR ''.'' then cs else c # replace_first_dot cs)"

section \<open>The schema (src/db/schema.ts)\<close>

text \<open>
  A timestamp column holds seconds since the epoch. A table is the list of its rows in
  insertion order.
\<close>

type_synonym timestamp = int

record workspace =
  ws_id :: string
  teamName :: string
  teamId :: string
  workspaceUrl :: string
  botToken :: string
  userId :: string
  botId :: string
  description :: "string option"
  createdAt :: timestamp
  updatedAt :: timestamp
  isActive :: bool

record posted_message =
  pm_id :: string
  workspaceId :: string
  channelId :: string
  channelName :: string
  messageText :: string
  messageTs :: string
  slackMessageId :: "string option"
  pm_userId :: string
  pm_createdAt :: timestamp

text \<open>
  The database is a D1 (SQLite) instance: its two tables and, with them, what SQL leaves
  to the engine. \<open>order_by_createdAt_desc db w c rows\<close> is the order in which the engine
  returns \<open>rows\<close>, the rows selected from \<open>posted_messages\<close>, for
  \<^verbatim>\<open>ORDER BY created_at DESC\<close>, where \<open>w\<close> and \<open>c\<close> are the conditions on
  \<^verbatim>\<open>workspace_id\<close> and \<^verbatim>\<open>channel_id\<close> of the \<^verbatim>\<open>WHERE\<close> clause (\<open>None\<close>
  for a condition the query does not have): among rows of equal \<^verbatim>\<open>created_at\<close> the
  order is the engine's choice and depends on the plan it makes for the query (SQLite
  walks the index on \<^verbatim>\<open>created_at\<close> backwards when there is no condition, and sorts
  the rows found through another index when there is one). \<open>datatype_mismatch db\<close> is
  the message of the error the engine raises when \<^verbatim>\<open>LIMIT\<close> or \<^verbatim>\<open>OFFSET\<close> is
  bound to a number that is not an integer.
\<close>

record database =
  workspaces :: "workspace list"
  postedMessages :: "posted_message list"
  order_by_createdAt_desc ::
    "string option \<Rightarrow> string option \<Rightarrow> posted_message list \<Rightarrow> posted_message list"
  datatype_mismatch :: string

text \<open>
  What SQL promises of \<^verbatim>\<open>ORDER BY created_at DESC\<close>: the same rows, none before a
  newer one.
\<close>

definition orders_newest_first :: "database \<Rightarrow> bool" where
  "orders_newest_first db \<longleftrightarrow>
     (\<forall>w c rows. mset (order_by_createdAt_desc db w c rows) = mset rows \<and>
        sorted_wrt (\<lambda>a b. pm_createdAt b \<le> pm_createdAt a)
          (order_by_createdAt_desc db w c rows))"

section \<open>The Slack Web API, as the handlers see it\<close>

text \<open>
  The Slack client is outside the repository. Each method is a function of the token the
  client was built with and of the request; its value is the resolved response, or
  \<open>Inl msg\<close> when the promise rejects with an error whose message is \<open>msg\<close>.
  The handlers' requests are recorded in a trace, so that "no external call" and
  "one request only" are statements about the model.
\<close>

record auth_test_response =
  auth_ok :: bool
  auth_team :: "string option"
  auth_team_id :: "string option"
  auth_url :: "string option"
  auth_user_id :: "string option"
  auth_bot_id :: "string option"

record slack_message =
  msg_text :: "string option"
  msg_user :: "string option"
  msg_ts :: "string option"

record history_response =
  hist_ok :: bool
  hist_messages :: "slack_message list option"
  hist_has_more :: bool
  hist_next_cursor :: "string option"

record slack_channel =
  ch_id :: "string option"
  ch_name :: "string option"
  ch_is_member :: bool

record list_response =
  list_ok :: bool
  list_channels :: "slack_channel list option"

record info_response =
  info_ok :: bool
  info_channel :: "slack_channel option"

record post_response =
  post_ok :: bool
  post_ts :: "string option"
  post_client_msg_id :: "string option"
  post_error :: "string option"

text \<open>
  A request as it leaves the service. \<open>ConversationsHistory\<close> carries the cursor
  parameter of the history method (absent when the caller passes none).
\<close>

text \<open>The values handed to \<^verbatim>\<open>JSON.stringify\<close>; a \<^verbatim>\<open>Date\<close> is kept as its timestamp.\<close>

datatype json =
    JNull
  | JString string
  | JDate timestamp
  | JObject "(string \<times> json) list"
  | JArray "json list"

datatype slack_call =
    AuthTest string
  | ConversationsHistory string string string nat "string option"
  | ConversationsList string string nat
  | ConversationsInfo string string
  | ChatPostMessage string string string

record env =
  slack_auth_test :: "string \<Rightarrow> string + auth_test_response"
  slack_conversations_history ::
    "string \<Rightarrow> string \<Rightarrow> string \<Rightarrow> nat \<Rightarrow> string option \<Rightarrow> string + history_response"
  slack_conversations_list :: "string \<Rightarrow> string \<Rightarrow> nat \<Rightarrow> string + list_response"
  slack_conversations_info :: "string \<Rightarrow> string \<Rightarrow> string + info_response"
  slack_chat_postMessage :: "string \<Rightarrow> string \<Rightarrow> string \<Rightarrow> string + post_response"
  date_now :: int
  randomUUID :: string
  ts_toISOString :: "string \<Rightarrow> string + string"
  date_toISOString :: "timestamp \<Rightarrow> string + string"
  new_RegExp :: "string \<Rightarrow> bool \<Rightarrow> string + (string \<Rightarrow> bool)"
  JSON_stringify :: "json \<Rightarrow> string"

text \<open>
  \<open>date_now\<close> is \<^verbatim>\<open>Date.now()\<close> in milliseconds, \<open>randomUUID\<close> the value
  \<^verbatim>\<open>crypto.randomUUID()\<close> gives the next inserted row. \<open>ts_toISOString\<close> stands for
  \<^verbatim>\<open>new Date(Number.parseFloat(ts) * 1000).toISOString()\<close> and \<open>date_toISOString\<close>
  for \<^verbatim>\<open>createdAt.toISOString()\<close>: floating point and calendar arithmetic are not
  modelled, and \<open>Inl msg\<close> is the RangeError of an invalid date.
  \<open>new_RegExp src i\<close> is \<^verbatim>\<open>new RegExp(src, i ? 'i' : '')\<close>: the SyntaxError of a
  malformed source, or the compiled expression as its \<^verbatim>\<open>test\<close> method.
  \<open>JSON_stringify v\<close> is \<^verbatim>\<open>JSON.stringify(v, null, 2)\<close>.
\<close>

section \<open>Tool results\<close>

record tool_result =
  content :: string
  isError :: bool

definition tool_text :: "string \<Rightarrow> tool_result" where
  "tool_text s = \<lparr>content = s, isError = False\<rparr>"

definition tool_error :: "string \<Rightarrow> tool_result" where
  "tool_error s = \<lparr>content = s, isError = True\<rparr>"

text \<open>What a handler leaves behind: its result, the database and the requests it made.\<close>

record outcome =
  result :: tool_result
  db_after :: database
  calls :: "slack_call list"

section \<open>Database operations (drizzle on D1/SQLite)\<close>

text \<open>\<^verbatim>\<open>CURRENT_TIMESTAMP\<close> and the stored form of \<^verbatim>\<open>new Date()\<close>: whole seconds.\<close>

definition now_seconds :: "env \<Rightarrow> timestamp" where
  "now_seconds e = date_now e div 1000"

text \<open>
  \<^verbatim>\<open>db.select().from(workspaces).where(eq(workspaces.teamId, t)).limit(1)\<close>
\<close>

definition select_workspaces_by_teamId :: "database \<Rightarrow> string \<Rightarrow> workspace list" where
  "select_workspaces_by_teamId db t = take 1 (filter (\<lambda>w. teamId w = t) (workspaces db))"

text \<open>
  \<^verbatim>\<open>db.select().from(workspaces).where(and(eq(id, w), eq(isActive, true))).limit(1)\<close>,
  destructured as \<^verbatim>\<open>const [workspace] = ...\<close>.
\<close>

definition select_active_workspace :: "database \<Rightarrow> string \<Rightarrow> workspace option" where
  "select_active_workspace db w =
     (case filter (\<lambda>r. ws_id r = w \<and> isActive r) (workspaces db) of
        [] \<Rightarrow> None
      | r # _ \<Rightarrow> Some r)"

text \<open>
  \<^verbatim>\<open>db.update(workspaces).set({...}).where(eq(workspaces.teamId, t)).returning()\<close>:
  every row of the team is rewritten by \<open>f\<close>; the rewritten rows are returned. The
  assignment touches neither \<open>id\<close> nor \<open>team_id\<close>, so no uniqueness constraint can fail.
\<close>

definition update_workspaces_by_teamId ::
  "string \<Rightarrow> (workspace \<Rightarrow> workspace) \<Rightarrow> database \<Rightarrow> database \<times> workspace list" where
  "update_workspaces_by_teamId t f db =
     (db\<lparr>workspaces := map (\<lambda>w. if teamId w = t then f w else w) (workspaces db)\<rparr>,
      map f (filter (\<lambda>w. teamId w = t) (workspaces db)))"

text \<open>
  \<^verbatim>\<open>db.insert(workspaces).values({...}).returning()\<close>: the primary key and the unique
  \<open>team_id\<close> are checked; a violation rejects with the driver's error (whose wording
  is the driver's own and is only sketched here).
\<close>

definition insert_workspace :: "workspace \<Rightarrow> database \<Rightarrow> string + (database \<times> workspace)" where
  "insert_workspace r db =
     (if ws_id r \<in> set (map ws_id (workspaces db))
        then Inl ''UNIQUE constraint failed: workspaces.id''
      else if teamId r \<in> set (map teamId (workspaces db))
        then Inl ''UNIQUE constraint failed: workspaces.team_id''
      else Inr (db\<lparr>workspaces := workspaces db @ [r]\<rparr>, r))"

text \<open>
  \<^verbatim>\<open>db.insert(postedMessages).values({...}).returning()\<close>: the primary key is checked,
  and the foreign key \<open>workspace_id\<close> must name a workspace row.
\<close>

definition insert_posted_message ::
  "posted_message \<Rightarrow> database \<Rightarrow> string + (database \<times> posted_message)" where
  "insert_posted_message r db =
     (if pm_id r \<in> set (map pm_id (postedMessages db))
        then Inl ''UNIQUE constraint failed: posted_messages.id''
      else if workspaceId r \<notin> set (map ws_id (workspaces db))
        then Inl ''FOREIGN KEY constraint failed''
      else Inr (db\<lparr>postedMessages := postedMessages db @ [r]\<rparr>, r))"

section \<open>configure\_workspace (src/index.ts, lines 27-111)\<close>

text \<open>
  The check of line 41: the response is accepted when it is ok and names the team, the
  team identifier, the URL and the user identifier of the token, each non-empty.
\<close>

definition auth_verified ::
  "auth_test_response \<Rightarrow> string \<Rightarrow> string \<Rightarrow> string \<Rightarrow> string \<Rightarrow> bool" where
  "auth_verified a team team_id url auth_uid =
     (auth_ok a \<and> auth_team a = Some team \<and> team \<noteq> [] \<and>
      auth_team_id a = Some team_id \<and> team_id \<noteq> [] \<and>
      auth_url a = Some url \<and> url \<noteq> [] \<and>
      auth_user_id a = Some auth_uid \<and> auth_uid \<noteq> [])"

text \<open>The \<^verbatim>\<open>.set({...})\<close> of the update branch (lines 60-69).\<close>

definition configure_set ::
  "env \<Rightarrow> string \<Rightarrow> string \<Rightarrow> string \<Rightarrow> string \<Rightarrow> string \<Rightarrow> string option
     \<Rightarrow> workspace \<Rightarrow> workspace" where
  "configure_set e team url bot_token user_id auth_uid descr w =
     w\<lparr>teamName := team,
       workspaceUrl := url,
       botToken := bot_token,
       userId := user_id,
       botId := auth_uid,
       description := or_null descr,
       updatedAt := now_seconds e,
       isActive := True\<rparr>"

text \<open>
  The \<^verbatim>\<open>.values({...})\<close> of the insert branch (lines 83-91), with the column defaults
  of the schema: a random identifier, the current time twice, active. The default of
  the two time columns is \<^verbatim>\<open>CURRENT_TIMESTAMP\<close>, which SQLite stores as the text of
  the current second; the model keeps the second itself. What the driver makes of the
  stored text when it reads a time column back is not modelled: the registration
  reads neither column.
\<close>

definition configure_values ::
  "env \<Rightarrow> string \<Rightarrow> string \<Rightarrow> string \<Rightarrow> string \<Rightarrow> string \<Rightarrow> string \<Rightarrow> string option
     \<Rightarrow> workspace" where
  "configure_values e team team_id url bot_token user_id auth_uid descr =
     \<lparr>ws_id = randomUUID e,
      teamName = team,
      teamId = team_id,
      workspaceUrl = url,
      botToken = bot_token,
      userId = user_id,
      botId = auth_uid,
      description = or_null descr,
      createdAt = now_seconds e,
      updatedAt = now_seconds e,
      isActive = True\<rparr>"

definition updated_text :: "workspace \<Rightarrow> string" where
  "updated_text w =
     ''Workspace updated successfully!'' @ nl @ nl @
     ''Workspace ID: '' @ ws_id w @ nl @
     ''Team: '' @ teamName w @ nl @
     ''URL: '' @ workspaceUrl w @ nl @
     ''Description: '' @ or_default (description w) ''None''"

definition configured_text :: "workspace \<Rightarrow> string" where
  "configured_text w =
     ''Workspace configured successfully!'' @ nl @ nl @
     ''Workspace ID: '' @ ws_id w @ nl @
     ''Team: '' @ teamName w @ nl @
     ''URL: '' @ workspaceUrl w @ nl @
     ''Description: '' @ or_default (description w) ''None'' @ nl @ nl @
     ''You can now use this workspace ID for other Slack operations.''"

text \<open>
  The handler. The arguments are \<open>bot_token\<close>, \<open>user_id\<close> and the optional
  \<open>description\<close>; the handlers run on arguments that passed the schema of the tool
  (non-empty strings, numbers within their bounds). Every exception is caught by the handler's \<^verbatim>\<open>catch\<close> and becomes an
  error result.
\<close>

definition configure_workspace ::
  "env \<Rightarrow> database \<Rightarrow> string \<Rightarrow> string \<Rightarrow> string option \<Rightarrow> outcome" where
  "configure_workspace e db bot_token user_id descr =
     (case slack_auth_test e bot_token of
        Inl msg \<Rightarrow>
          \<lparr>result = tool_error (''Error configuring workspace: '' @ msg),
           db_after = db, calls = [AuthTest bot_token]\<rparr>
      | Inr authTest \<Rightarrow>
          (case (auth_team authTest, auth_team_id authTest, auth_url authTest,
                 auth_user_id authTest) of
             (Some team, Some team_id, Some url, Some auth_uid) \<Rightarrow>
               if \<not> auth_ok authTest \<or> team = [] \<or> team_id = [] \<or> url = [] \<or> auth_uid = []
               then \<lparr>result = tool_error ''Invalid bot token or missing workspace information'',
                     db_after = db, calls = [AuthTest bot_token]\<rparr>
               else if select_workspaces_by_teamId db team_id \<noteq> []
               then
                 (case update_workspaces_by_teamId team_id
                         (configure_set e team url bot_token user_id auth_uid descr) db of
                    (db', []) \<Rightarrow>
                      \<lparr>result = tool_error (''Error configuring workspace: '' @
                          ''Cannot read properties of undefined (reading id)''),
                       db_after = db', calls = [AuthTest bot_token]\<rparr>
                  | (db', updatedWorkspace # _) \<Rightarrow>
                      \<lparr>result = tool_text (updated_text updatedWorkspace),
                       db_after = db', calls = [AuthTest bot_token]\<rparr>)
               else
                 (case insert_workspace
                         (configure_values e team team_id url bot_token user_id auth_uid descr) db of
                    Inl msg \<Rightarrow>
                      \<lparr>result = tool_error (''Error configuring workspace: '' @ msg),
                       db_after = db, calls = [AuthTest bot_token]\<rparr>
                  | Inr (db', newWorkspace) \<Rightarrow>
                      \<lparr>result = tool_text (configured_text newWorkspace),
                       db_after = db', calls = [AuthTest bot_token]\<rparr>)
           | _ \<Rightarrow>
               \<lparr>result = tool_error ''Invalid bot token or missing workspace information'',
                db_after = db, calls = [AuthTest bot_token]\<rparr>))"

section \<open>Regular expressions without syntax characters\<close>

text \<open>
  \<open>get_mentions\<close> builds a regular expression from the owner's identifier. When the
  source of an expression has ASCII characters only and none of them is a syntax
  character, the expression matches a text exactly when the text has the source as a
  substring; with the flag \<^verbatim>\<open>i\<close> the comparison ignores the case of the ASCII letters.
\<close>

definition regexp_syntax_chars :: "char list" where
  "regexp_syntax_chars =
     [CHR 0x5C, CHR ''^'', CHR ''$'', CHR ''.'', CHR ''*'', CHR ''+'', CHR ''?'',
      CHR ''('', CHR '')'', CHR ''['', CHR '']'', CHR ''{'', CHR ''}'', CHR ''|'']"

definition regexp_literal :: "string \<Rightarrow> bool" where
  "regexp_literal src =
     list_all (\<lambda>c. (of_char c :: nat) < 128 \<and> c \<notin> set regexp_syntax_chars) src"

definition ascii_upper :: "char \<Rightarrow> char" where
  "ascii_upper c =
     (let n = (of_char c :: nat) in if 97 \<le> n \<and> n \<le> 122 then char_of (n - 32) else c)"

definition canonicalize :: "bool \<Rightarrow> char \<Rightarrow> char" where
  "canonicalize ignoreCase c = (if ignoreCase then ascii_upper c else c)"

fun starts_with :: "bool \<Rightarrow> string \<Rightarrow> string \<Rightarrow> bool" where
  "starts_with i [] t = True"
| "starts_with i (p # ps) [] = False"
| "starts_with i (p # ps) (c # cs) =
     (canonicalize i p = canonicalize i c \<and> starts_with i ps cs)"

fun literal_test :: "bool \<Rightarrow> string \<Rightarrow> string \<Rightarrow> bool" where
  "literal_test i p [] = starts_with i p []"
| "literal_test i p (c # cs) = (starts_with i p (c # cs) \<or> literal_test i p cs)"

declare starts_with.simps [simp del] literal_test.simps [simp del]

text \<open>The platform's regular expressions agree with this on such sources.\<close>

definition regexp_engine_ok :: "env \<Rightarrow> bool" where
  "regexp_engine_ok e =
     (\<forall>src i. regexp_literal src \<longrightarrow> new_RegExp e src i = Inr (literal_test i src))"

section \<open>list\_workspaces (src/index.ts, lines 114-156)\<close>

definition workspace_line :: "string \<times> string option \<Rightarrow> string" where
  "workspace_line ws =
     bullet @ '' '' @ fst ws @ (if truthy (snd ws) then '' - '' @ or_default (snd ws) [] else [])"

definition list_workspaces :: "env \<Rightarrow> database \<Rightarrow> outcome" where
  "list_workspaces e db =
     (let workspaces = map (\<lambda>w. (teamName w, description w))
                          (filter (\<lambda>w. isActive w) (workspaces db))
      in if workspaces = []
         then \<lparr>result = tool_text
                  ''No workspaces configured yet. Use configure_workspace to add one.'',
               db_after = db, calls = []\<rparr>
         else \<lparr>result = tool_text (''Configured Workspaces:'' @ nl @ nl @
                  join nl (map workspace_line workspaces)),
               db_after = db, calls = []\<rparr>)"

section \<open>get\_mentions (src/index.ts, lines 159-262)\<close>

record mention =
  m_text :: string
  m_user :: string
  m_timestamp :: string
  m_permalink :: string

text \<open>An \<^verbatim>\<open>Array.prototype.map\<close> whose callback may throw: the first exception ends it.\<close>

fun map_throwing :: "('a \<Rightarrow> string + 'b) \<Rightarrow> 'a list \<Rightarrow> string + 'b list" where
  "map_throwing f [] = Inr []"
| "map_throwing f (x # xs) =
     (case f x of
        Inl msg \<Rightarrow> Inl msg
      | Inr y \<Rightarrow> (case map_throwing f xs of Inl msg \<Rightarrow> Inl msg | Inr ys \<Rightarrow> Inr (y # ys)))"

text \<open>The filter callback of lines 215-218.\<close>

definition is_mention :: "(string \<Rightarrow> bool) \<Rightarrow> slack_message \<Rightarrow> bool" where
  "is_mention mentionPattern msg =
     (let text = or_default (msg_text msg) []
      in mentionPattern text \<or> literal_test True ''<!channel>'' text)"

text \<open>The map callback of lines 220-230.\<close>

definition to_mention :: "env \<Rightarrow> workspace \<Rightarrow> string \<Rightarrow> slack_message \<Rightarrow> string + mention" where
  "to_mention e workspace channel_id msg =
     (case (if truthy (msg_ts msg) then ts_toISOString e (or_default (msg_ts msg) [])
            else Inr ''Unknown'') of
        Inl err \<Rightarrow> Inl err
      | Inr timestamp \<Rightarrow>
          Inr \<lparr>m_text = or_default (msg_text msg) [],
               m_user = or_default (msg_user msg) ''Unknown'',
               m_timestamp = timestamp,
               m_permalink = workspaceUrl workspace @ ''archives/'' @ channel_id @ ''/p'' @
                 (case msg_ts msg of None \<Rightarrow> ''undefined'' | Some ts \<Rightarrow> replace_first_dot ts)\<rparr>)"

text \<open>Lines 211-230: the pattern, then filter, slice and map.\<close>

definition find_mentions ::
  "env \<Rightarrow> workspace \<Rightarrow> string \<Rightarrow> nat \<Rightarrow> slack_message list \<Rightarrow> string + mention list" where
  "find_mentions e workspace channel_id limit messages =
     (case new_RegExp e (''<@'' @ userId workspace @ ''>'') True of
        Inl err \<Rightarrow> Inl err
      | Inr mentionPattern \<Rightarrow>
          map_throwing (to_mention e workspace channel_id)
            (take limit (filter (is_mention mentionPattern) messages)))"

definition mention_entry :: "mention \<Rightarrow> string" where
  "mention_entry m =
     bullet @ '' '' @ m_text m @ nl @
     ''  User: '' @ m_user m @ nl @
     ''  Time: '' @ m_timestamp m @ nl @
     ''  Link: '' @ m_permalink m"

definition oldestTimestamp :: "env \<Rightarrow> nat \<Rightarrow> int" where
  "oldestTimestamp e days_back = (date_now e - int days_back * 24 * 60 * 60 * 1000) div 1000"

definition get_mentions :: "env \<Rightarrow> database \<Rightarrow> string \<Rightarrow> string \<Rightarrow> nat \<Rightarrow> nat \<Rightarrow> outcome" where
  "get_mentions e db workspace_id channel_id days_back limit =
     (case select_active_workspace db workspace_id of
        None \<Rightarrow>
          \<lparr>result = tool_error ''Workspace not found or inactive'', db_after = db, calls = []\<rparr>
      | Some workspace \<Rightarrow>
          (let oldest = show_int (oldestTimestamp e days_back);
               trace = [ConversationsHistory (botToken workspace) channel_id oldest 200 None]
           in case slack_conversations_history e (botToken workspace) channel_id oldest 200 None of
                Inl msg \<Rightarrow>
                  \<lparr>result = tool_error (''Error getting mentions: '' @ msg),
                   db_after = db, calls = trace\<rparr>
              | Inr history \<Rightarrow>
                  (case hist_messages history of
                     None \<Rightarrow>
                       \<lparr>result = tool_error
                          ''Failed to retrieve channel history or no messages found'',
                        db_after = db, calls = trace\<rparr>
                   | Some messages \<Rightarrow>
                       if \<not> hist_ok history
                       then \<lparr>result = tool_error
                               ''Failed to retrieve channel history or no messages found'',
                             db_after = db, calls = trace\<rparr>
                       else
                         (case find_mentions e workspace channel_id limit messages of
                            Inl msg \<Rightarrow>
                              \<lparr>result = tool_error (''Error getting mentions: '' @ msg),
                               db_after = db, calls = trace\<rparr>
                          | Inr mentions \<Rightarrow>
                              if mentions = []
                              then \<lparr>result = tool_text
                                      (''No mentions or channel notifications found in the last '' @
                                       show_nat days_back @ '' day(s)''),
                                    db_after = db, calls = trace\<rparr>
                              else \<lparr>result = tool_text
                                      (''Found '' @ show_nat (length mentions) @
                                       '' mention(s) in the last '' @ show_nat days_back @
                                       '' day(s):'' @ nl @ nl @
                                       join (nl @ nl) (map mention_entry mentions)),
                                    db_after = db, calls = trace\<rparr>))))"

section \<open>list\_user\_channels (src/index.ts, lines 265-359)\<close>

text \<open>A value inside a template string: \<^verbatim>\<open>undefined\<close> prints as the word.\<close>

definition template :: "string option \<Rightarrow> string" where
  "template v = (case v of None \<Rightarrow> ''undefined'' | Some s \<Rightarrow> s)"

text \<open>The check mark U+2713, as its three UTF-8 bytes.\<close>

definition check_mark :: string where
  "check_mark = [CHR 0xE2, CHR 0x9C, CHR 0x93]"

record channel_entry =
  ce_id :: "string option"
  ce_name :: "string option"
  ce_type :: string
  ce_is_member :: bool

definition channel_entries :: "string \<Rightarrow> list_response \<Rightarrow> channel_entry list" where
  "channel_entries ty r =
     (case list_channels r of
        None \<Rightarrow> []
      | Some chs \<Rightarrow>
          if list_ok r
          then map (\<lambda>ch. \<lparr>ce_id = ch_id ch, ce_name = ch_name ch, ce_type = ty,
                          ce_is_member = ch_is_member ch\<rparr>) chs
          else [])"

definition channel_line :: "channel_entry \<Rightarrow> string" where
  "channel_line ch =
     bullet @ '' #'' @ template (ce_name ch) @ '' ('' @ ce_type ch @ '') - ID: '' @
     template (ce_id ch) @ (if ce_is_member ch then '' '' @ check_mark else [])"

definition channels_result :: "nat \<Rightarrow> channel_entry list \<Rightarrow> tool_result" where
  "channels_result limit channels =
     (if channels = [] then tool_text ''No channels found''
      else tool_text (''Channels ('' @ check_mark @ '' = member):'' @ nl @ nl @
             join nl (map channel_line (take limit channels))))"

definition list_user_channels :: "env \<Rightarrow> database \<Rightarrow> string \<Rightarrow> nat \<Rightarrow> bool \<Rightarrow> outcome" where
  "list_user_channels e db workspace_id limit private_only =
     (case select_active_workspace db workspace_id of
        None \<Rightarrow>
          \<lparr>result = tool_error ''Workspace not found or inactive'', db_after = db, calls = []\<rparr>
      | Some workspace \<Rightarrow>
          (let tok = botToken workspace;
               pub_calls = (if private_only then []
                            else [ConversationsList tok ''public_channel'' limit]);
               pub = (if private_only then Inr []
                      else (case slack_conversations_list e tok ''public_channel'' limit of
                              Inl msg \<Rightarrow> Inl msg
                            | Inr publicChannels \<Rightarrow>
                                Inr (channel_entries ''public'' publicChannels)))
           in case pub of
                Inl msg \<Rightarrow>
                  \<lparr>result = tool_error (''Error listing channels: '' @ msg),
                   db_after = db, calls = pub_calls\<rparr>
              | Inr channels \<Rightarrow>
                  (let limit' = (if private_only then limit
                                 else max 1 (limit - length channels));
                       trace = pub_calls @ [ConversationsList tok ''private_channel'' limit']
                   in case slack_conversations_list e tok ''private_channel'' limit' of
                        Inl msg \<Rightarrow>
                          \<lparr>result = tool_error (''Error listing channels: '' @ msg),
                           db_after = db, calls = trace\<rparr>
                      | Inr privateChannels \<Rightarrow>
                          \<lparr>result = channels_result limit
                              (channels @ channel_entries ''private'' privateChannels),
                           db_after = db, calls = trace\<rparr>)))"

section \<open>post\_message (src/index.ts, lines 362-448)\<close>

text \<open>Lines 397-398: the channel's name, or the identifier when the lookup gives none.\<close>

definition channel_name_of :: "info_response \<Rightarrow> string \<Rightarrow> string" where
  "channel_name_of channelInfo channel_id =
     (case info_channel channelInfo of
        None \<Rightarrow> channel_id
      | Some ch \<Rightarrow> if info_ok channelInfo then or_default (ch_name ch) channel_id
                  else channel_id)"

text \<open>
  The \<^verbatim>\<open>.values({...})\<close> of lines 418-426, with the defaults of the schema. The
  default of \<open>created_at\<close> is \<^verbatim>\<open>CURRENT_TIMESTAMP\<close>, stored as the text of the current
  second; the model keeps the second itself, which orders the rows as the stored text
  does. Reading the column back is the platform's \<open>date_toISOString\<close>, which may throw.
\<close>

definition posted_values ::
  "env \<Rightarrow> workspace \<Rightarrow> string \<Rightarrow> string \<Rightarrow> string \<Rightarrow> string \<Rightarrow> string
     \<Rightarrow> string option \<Rightarrow> posted_message" where
  "posted_values e workspace workspace_id channel_id chanName message_text ts client_msg_id =
     \<lparr>pm_id = randomUUID e,
      workspaceId = workspace_id,
      channelId = channel_id,
      channelName = chanName,
      messageText = message_text,
      messageTs = ts,
      slackMessageId = or_null client_msg_id,
      pm_userId = userId workspace,
      pm_createdAt = now_seconds e\<rparr>"

definition posted_text :: "workspace \<Rightarrow> string \<Rightarrow> string \<Rightarrow> string \<Rightarrow> string \<Rightarrow> string \<Rightarrow> string" where
  "posted_text workspace channel_id chanName message_text ts new_id =
     ''Message posted successfully!'' @ nl @ nl @
     ''Channel: #'' @ chanName @ nl @
     ''Message: '' @ message_text @ nl @
     ''Link: '' @ workspaceUrl workspace @ ''archives/'' @ channel_id @ ''/p'' @
        replace_first_dot ts @ nl @
     ''Message ID: '' @ new_id"

text \<open>
  The check of line 406 on the answer of the send: it counts as sent when the call
  resolved, reports \<open>ok\<close> and carries the platform's timestamp.
\<close>

definition send_confirmed :: "string + post_response \<Rightarrow> bool" where
  "send_confirmed sent =
     (case sent of Inl msg \<Rightarrow> False | Inr res \<Rightarrow> post_ok res \<and> truthy (post_ts res))"

definition post_message :: "env \<Rightarrow> database \<Rightarrow> string \<Rightarrow> string \<Rightarrow> string \<Rightarrow> outcome" where
  "post_message e db workspace_id channel_id message_text =
     (case select_active_workspace db workspace_id of
        None \<Rightarrow>
          \<lparr>result = tool_error ''Workspace not found or inactive'', db_after = db, calls = []\<rparr>
      | Some workspace \<Rightarrow>
          (let tok = botToken workspace;
               info_call = ConversationsInfo tok channel_id;
               post_call = ChatPostMessage tok channel_id message_text
           in case slack_conversations_info e tok channel_id of
                Inl msg \<Rightarrow>
                  \<lparr>result = tool_error (''Error posting message: '' @ msg),
                   db_after = db, calls = [info_call]\<rparr>
              | Inr channelInfo \<Rightarrow>
                  (let chanName = channel_name_of channelInfo channel_id
                   in case slack_chat_postMessage e tok channel_id message_text of
                        Inl msg \<Rightarrow>
                          \<lparr>result = tool_error (''Error posting message: '' @ msg),
                           db_after = db, calls = [info_call, post_call]\<rparr>
                      | Inr res \<Rightarrow>
                          (case post_ts res of
                             None \<Rightarrow>
                               \<lparr>result = tool_error ''Failed to post message to Slack'',
                                db_after = db, calls = [info_call, post_call]\<rparr>
                           | Some ts \<Rightarrow>
                               if \<not> post_ok res \<or> ts = []
                               then \<lparr>result = tool_error ''Failed to post message to Slack'',
                                     db_after = db, calls = [info_call, post_call]\<rparr>
                               else
                                 (case insert_posted_message
                                         (posted_values e workspace workspace_id channel_id
                                            chanName message_text ts (post_client_msg_id res))
                                         db of
                                    Inl msg \<Rightarrow>
                                      \<lparr>result = tool_error (''Error posting message: '' @ msg),
                                       db_after = db, calls = [info_call, post_call]\<rparr>
                                  | Inr (db', postedMessage) \<Rightarrow>
                                      \<lparr>result = tool_text
                                         (posted_text workspace channel_id chanName
                                            message_text ts (pm_id postedMessage)),
                                       db_after = db', calls = [info_call, post_call]\<rparr>)))))"

section \<open>get\_posted\_messages (src/index.ts, lines 451-518)\<close>

text \<open>
  The query of lines 479-483 has the one condition on \<^verbatim>\<open>workspace_id\<close>; its rows come
  newest first, in the order of the engine. The limit is a whole number here; a limit
  that is not one is modelled for the paginated query of the other file, below.
\<close>

definition posted_entry :: "env \<Rightarrow> workspace \<Rightarrow> posted_message \<Rightarrow> string + string" where
  "posted_entry e workspace msg =
     (case date_toISOString e (pm_createdAt msg) of
        Inl err \<Rightarrow> Inl err
      | Inr timestamp \<Rightarrow>
          Inr (bullet @ '' #'' @ channelName msg @ '': '' @ messageText msg @ nl @
               ''  Posted: '' @ timestamp @ nl @
               ''  Link: '' @ workspaceUrl workspace @ ''archives/'' @ channelId msg @ ''/p'' @
                 replace_first_dot (messageTs msg)))"

definition get_posted_messages :: "env \<Rightarrow> database \<Rightarrow> string \<Rightarrow> nat \<Rightarrow> outcome" where
  "get_posted_messages e db workspace_id limit =
     (case select_active_workspace db workspace_id of
        None \<Rightarrow>
          \<lparr>result = tool_error ''Workspace not found or inactive'', db_after = db, calls = []\<rparr>
      | Some workspace \<Rightarrow>
          (let messages = take limit (order_by_createdAt_desc db (Some workspace_id) None
                 (filter (\<lambda>m. workspaceId m = workspace_id) (postedMessages db)))
           in if messages = []
              then \<lparr>result = tool_text
                      ''No messages have been posted through this MCP server yet'',
                    db_after = db, calls = []\<rparr>
              else
                (case map_throwing (posted_entry e workspace) messages of
                   Inl msg \<Rightarrow>
                     \<lparr>result = tool_error (''Error getting posted messages: '' @ msg),
                      db_after = db, calls = []\<rparr>
                 | Inr entries \<Rightarrow>
                     \<lparr>result = tool_text (''Posted Messages ('' @ show_nat (length messages) @
                         ''):'' @ nl @ nl @ join (nl @ nl) entries),
                      db_after = db, calls = []\<rparr>)))"

section \<open>The variant with an owner filter and a paginated ledger
  (src/unnamed/part\_000, second file, lines 629-1179)\<close>

text \<open>
  \<open>list_workspaces\<close> of this file (lines 790-828) takes the caller's \<open>user_context\<close>;
  its query is lines 797-802, its projection lines 804-810.
\<close>

definition select_workspaces_of_user :: "database \<Rightarrow> string \<Rightarrow> workspace list" where
  "select_workspaces_of_user db user_context =
     filter (\<lambda>w. userId w = user_context \<and> isActive w) (workspaces db)"

definition json_opt :: "string option \<Rightarrow> json" where
  "json_opt v = (case v of None \<Rightarrow> JNull | Some s \<Rightarrow> JString s)"

definition workspace_json :: "workspace \<Rightarrow> json" where
  "workspace_json ws =
     JObject [(''id'', JString (ws_id ws)),
              (''name'', JString (teamName ws)),
              (''url'', JString (workspaceUrl ws)),
              (''description'', json_opt (description ws)),
              (''created_at'', JDate (createdAt ws))]"

definition list_workspaces_B :: "env \<Rightarrow> database \<Rightarrow> string \<Rightarrow> outcome" where
  "list_workspaces_B e db user_context =
     (let workspaces = select_workspaces_of_user db user_context
      in \<lparr>result = tool_text (''Found '' @ show_nat (length workspaces) @ '' workspace(s):'' @
              nl @ JSON_stringify e (JArray (map workspace_json workspaces))),
          db_after = db, calls = []\<rparr>)"

text \<open>
  \<open>get_posted_messages\<close> of this file (lines 1076-1134). A filter is pushed onto
  \<open>conditions\<close> when its argument is truthy (lines 1088-1094); the query is filtered,
  ordered, then cut by offset and limit.
\<close>

definition conditions_hold :: "string option \<Rightarrow> string option \<Rightarrow> posted_message \<Rightarrow> bool" where
  "conditions_hold workspace_id channel_id m =
     ((truthy workspace_id \<longrightarrow> Some (workspaceId m) = workspace_id) \<and>
      (truthy channel_id \<longrightarrow> Some (channelId m) = channel_id))"

text \<open>The condition a filter argument contributes to the \<^verbatim>\<open>WHERE\<close> clause, if any.\<close>

definition pushed :: "string option \<Rightarrow> string option" where
  "pushed v = (if truthy v then v else None)"

text \<open>
  \<open>limit\<close> and \<open>offset\<close> are JavaScript numbers; the schema of the tool
  (\<^verbatim>\<open>z.number().min(1).max(1000)\<close>, \<^verbatim>\<open>z.number().min(0)\<close>) asks for no integer,
  so they are rationals here (every finite double is one). The driver binds them as
  they are. SQLite takes a bound number for \<^verbatim>\<open>LIMIT\<close> or \<^verbatim>\<open>OFFSET\<close> when it is a
  whole number strictly between \<open>-2^63\<close> and \<open>2^63\<close>, and fails the statement with a
  datatype mismatch otherwise. A negative \<^verbatim>\<open>LIMIT\<close> is no limit, a negative
  \<^verbatim>\<open>OFFSET\<close> is zero.
\<close>

definition sql_integer :: "rat \<Rightarrow> int option" where
  "sql_integer q =
     (if of_int \<lfloor>q\<rfloor> = q \<and> - (2 ^ 63) < q \<and> q < 2 ^ 63 then Some \<lfloor>q\<rfloor> else None)"

definition sql_limit_offset :: "int \<Rightarrow> int \<Rightarrow> 'a list \<Rightarrow> 'a list" where
  "sql_limit_offset limit offset rows =
     (if limit < 0 then drop (nat offset) rows
      else take (nat limit) (drop (nat offset) rows))"

text \<open>
  The query of lines 1096-1104; \<open>Inl msg\<close> is the rejection of the awaited query with
  an error of message \<open>msg\<close>.
\<close>

definition select_posted_messages ::
  "database \<Rightarrow> string option \<Rightarrow> string option \<Rightarrow> rat \<Rightarrow> rat
     \<Rightarrow> string + posted_message list" where
  "select_posted_messages db workspace_id channel_id limit offset =
     (case sql_integer limit of
        None \<Rightarrow> Inl (datatype_mismatch db)
      | Some l \<Rightarrow>
          (case sql_integer offset of
             None \<Rightarrow> Inl (datatype_mismatch db)
           | Some off \<Rightarrow>
               Inr (sql_limit_offset l off
                      (order_by_createdAt_desc db (pushed workspace_id) (pushed channel_id)
                         (filter (conditions_hold workspace_id channel_id)
                            (postedMessages db))))))"

definition posted_message_json :: "posted_message \<Rightarrow> json" where
  "posted_message_json msg =
     JObject [(''id'', JString (pm_id msg)),
              (''workspace_id'', JString (workspaceId msg)),
              (''channel_id'', JString (channelId msg)),
              (''channel_name'', JString (channelName msg)),
              (''message_text'', JString (messageText msg)),
              (''message_ts'', JString (messageTs msg)),
              (''slack_message_id'', json_opt (slackMessageId msg)),
              (''user_id'', JString (pm_userId msg)),
              (''created_at'', JDate (pm_createdAt msg))]"

text \<open>The handler: the \<^verbatim>\<open>try\<close> of lines 1085-1123 and its \<^verbatim>\<open>catch\<close> (1124-1131).\<close>

definition get_posted_messages_B ::
  "env \<Rightarrow> database \<Rightarrow> string option \<Rightarrow> string option \<Rightarrow> rat \<Rightarrow> rat \<Rightarrow> outcome" where
  "get_posted_messages_B e db workspace_id channel_id limit offset =
     (case select_posted_messages db workspace_id channel_id limit offset of
        Inl msg \<Rightarrow>
          \<lparr>result = tool_error (''Error getting posted messages: '' @ msg),
           db_after = db, calls = []\<rparr>
      | Inr messages \<Rightarrow>
          \<lparr>result = tool_text (''Found '' @ show_nat (length messages) @
              '' posted message(s):'' @ nl @
              JSON_stringify e (JArray (map posted_message_json messages))),
           db_after = db, calls = []\<rparr>)"

section \<open>The credential cipher (src/unnamed/part\_000, lines 646-696)\<close>

text \<open>
  \<open>encrypt\<close> and \<open>decrypt\<close> are written over the platform's text codec, Web Crypto and
  base64 functions. In this section a JavaScript string is the list of its UTF-16 code
  units (numbers below 65536), since \<^verbatim>\<open>slice\<close>, \<^verbatim>\<open>padEnd\<close> and the encoder work on
  code units, and a byte array is the list of its bytes.
\<close>

type_synonym js_string = "nat list"
type_synonym bytes = "nat list"

definition is_high :: "nat \<Rightarrow> bool" where
  "is_high u \<longleftrightarrow> 0xD800 \<le> u \<and> u < 0xDC00"

definition is_low :: "nat \<Rightarrow> bool" where
  "is_low u \<longleftrightarrow> 0xDC00 \<le> u \<and> u < 0xE000"

text \<open>
  The code points of a string, as the encoder reads them: a high surrogate followed by
  a low one is one code point, any other surrogate is replaced by U+FFFD.
\<close>

fun code_points :: "js_string \<Rightarrow> nat list" where
  "code_points [] = []"
| "code_points [u] = [if is_high u \<or> is_low u then 0xFFFD else u]"
| "code_points (u # v # us) =
     (if is_high u \<and> is_low v
      then (0x10000 + (u - 0xD800) * 0x400 + (v - 0xDC00)) # code_points us
      else (if is_high u \<or> is_low u then 0xFFFD else u) # code_points (v # us))"

definition utf8 :: "nat \<Rightarrow> bytes" where
  "utf8 cp =
     (if cp < 0x80 then [cp]
      else if cp < 0x800 then [0xC0 + cp div 64, 0x80 + cp mod 64]
      else if cp < 0x10000
        then [0xE0 + cp div 4096, 0x80 + cp div 64 mod 64, 0x80 + cp mod 64]
      else [0xF0 + cp div 262144, 0x80 + cp div 4096 mod 64, 0x80 + cp div 64 mod 64,
            0x80 + cp mod 64])"

text \<open>\<^verbatim>\<open>new TextEncoder().encode(s)\<close>\<close>

definition TextEncoder_encode :: "js_string \<Rightarrow> bytes" where
  "TextEncoder_encode s = concat (map utf8 (code_points s))"

definition continuation :: "nat \<Rightarrow> bool" where
  "continuation b \<longleftrightarrow> 0x80 \<le> b \<and> b \<le> 0xBF"

text \<open>
  The UTF-8 decoder of the Encoding Standard, without the fatal flag: a byte that cannot
  start or continue a sequence ends the sequence with U+FFFD and, when it was read as a
  continuation, is read again as a start; a sequence cut by the end of the input gives
  one U+FFFD.
\<close>

fun utf8_decode :: "bytes \<Rightarrow> nat list" where
  "utf8_decode [] = []"
| "utf8_decode (b # bs) =
     (if b < 0x80 then b # utf8_decode bs
      else if 0xC2 \<le> b \<and> b \<le> 0xDF then
        (case bs of
           [] \<Rightarrow> [0xFFFD]
         | b1 # r1 \<Rightarrow>
             if continuation b1
             then ((b - 0xC0) * 64 + (b1 - 0x80)) # utf8_decode r1
             else 0xFFFD # utf8_decode bs)
      else if 0xE0 \<le> b \<and> b \<le> 0xEF then
        (case bs of
           [] \<Rightarrow> [0xFFFD]
         | b1 # r1 \<Rightarrow>
             if (if b = 0xE0 then 0xA0 else 0x80) \<le> b1 \<and>
                b1 \<le> (if b = 0xED then 0x9F else 0xBF)
             then (case r1 of
                     [] \<Rightarrow> [0xFFFD]
                   | b2 # r2 \<Rightarrow>
                       if continuation b2
                       then ((b - 0xE0) * 4096 + (b1 - 0x80) * 64 + (b2 - 0x80)) #
                            utf8_decode r2
                       else 0xFFFD # utf8_decode r1)
             else 0xFFFD # utf8_decode bs)
      else if 0xF0 \<le> b \<and> b \<le> 0xF4 then
        (case bs of
           [] \<Rightarrow> [0xFFFD]
         | b1 # r1 \<Rightarrow>
             if (if b = 0xF0 then 0x90 else 0x80) \<le> b1 \<and>
                b1 \<le> (if b = 0xF4 then 0x8F else 0xBF)
             then (case r1 of
                     [] \<Rightarrow> [0xFFFD]
                   | b2 # r2 \<Rightarrow>
                       if continuation b2
                       then (case r2 of
                               [] \<Rightarrow> [0xFFFD]
                             | b3 # r3 \<Rightarrow>
                                 if continuation b3
                                 then ((b - 0xF0) * 262144 + (b1 - 0x80) * 4096 +
                                       (b2 - 0x80) * 64 + (b3 - 0x80)) # utf8_decode r3
                                 else 0xFFFD # utf8_decode r2)
                       else 0xFFFD # utf8_decode r1)
             else 0xFFFD # utf8_decode bs)
      else 0xFFFD # utf8_decode bs)"

declare utf8_decode.simps [simp del]

definition utf16 :: "nat \<Rightarrow> js_string" where
  "utf16 cp =
     (if cp < 0x10000 then [cp]
      else [0xD800 + (cp - 0x10000) div 0x400, 0xDC00 + (cp - 0x10000) mod 0x400])"

text \<open>
  \<^verbatim>\<open>new TextDecoder().decode(bytes)\<close>: a leading byte order mark is dropped, the rest is
  decoded.
\<close>

definition TextDecoder_decode :: "bytes \<Rightarrow> js_string" where
  "TextDecoder_decode bytes =
     concat (map utf16 (utf8_decode
       (if take 3 bytes = [0xEF, 0xBB, 0xBF] then drop 3 bytes else bytes)))"

text \<open>A string without an unpaired surrogate.\<close>

fun well_formed :: "js_string \<Rightarrow> bool" where
  "well_formed [] = True"
| "well_formed [u] = (u < 0x10000 \<and> \<not> is_high u \<and> \<not> is_low u)"
| "well_formed (u # v # us) =
     (if is_high u then is_low v \<and> well_formed us
      else u < 0x10000 \<and> \<not> is_low u \<and> well_formed (v # us))"

text \<open>A Unicode scalar value: a code point that is not a surrogate.\<close>

definition scalar :: "nat \<Rightarrow> bool" where
  "scalar cp \<longleftrightarrow> cp < 0x110000 \<and> \<not> (0xD800 \<le> cp \<and> cp < 0xE000)"

text \<open>
  The rest of the platform is a parameter of the model.
  \<open>aes_gcm_encrypt K iv data\<close> is \<^verbatim>\<open>crypto.subtle.encrypt({name: 'AES-GCM', iv}, K, data)\<close>
  (the ciphertext followed by its tag of 16 bytes), \<open>aes_gcm_decrypt K iv data\<close> the
  matching \<^verbatim>\<open>decrypt\<close>, with \<open>None\<close> for the OperationError of a rejected input;
  \<open>btoa\<close> and \<open>atob\<close> are the base64 functions, between a binary string (given by its
  bytes) and its text, with \<open>None\<close> for the InvalidCharacterError of \<^verbatim>\<open>atob\<close>;
  \<open>max_arguments\<close> is the largest number of arguments the engine passes to a call.
\<close>

record crypto =
  aes_gcm_encrypt :: "bytes \<Rightarrow> bytes \<Rightarrow> bytes \<Rightarrow> bytes"
  aes_gcm_decrypt :: "bytes \<Rightarrow> bytes \<Rightarrow> bytes \<Rightarrow> bytes option"
  btoa :: "bytes \<Rightarrow> js_string"
  atob :: "js_string \<Rightarrow> bytes option"
  max_arguments :: nat

text \<open>\<^verbatim>\<open>key.slice(0, 32).padEnd(32, '0')\<close>\<close>

definition key_material :: "js_string \<Rightarrow> js_string" where
  "key_material key = take 32 key @ replicate (32 - length (take 32 key)) 0x30"

text \<open>
  \<^verbatim>\<open>crypto.subtle.importKey('raw', keyData, {name: 'AES-GCM'}, ...)\<close>: the key must be
  16, 24 or 32 bytes long. The 32 code units of the key material are 32 bytes exactly
  when they are ASCII; a code unit beyond ASCII among them makes the encoding longer,
  and the import rejects.
\<close>

definition import_aes_key :: "bytes \<Rightarrow> string + bytes" where
  "import_aes_key keyData =
     (if length keyData = 16 \<or> length keyData = 24 \<or> length keyData = 32 then Inr keyData
      else Inl ''Invalid key length'')"

text \<open>
  \<^verbatim>\<open>String.fromCharCode(...result)\<close>: every byte is one argument of the call, and a
  call with more arguments than the engine takes throws a RangeError.
\<close>

definition fromCharCode_spread :: "crypto \<Rightarrow> bytes \<Rightarrow> string + bytes" where
  "fromCharCode_spread P codes =
     (if length codes \<le> max_arguments P then Inr codes
      else Inl ''Maximum call stack size exceeded'')"

text \<open>
  \<open>encrypt\<close> (lines 647-672); \<open>iv\<close> is the value of
  \<^verbatim>\<open>crypto.getRandomValues(new Uint8Array(12))\<close>.
\<close>

definition encrypt :: "crypto \<Rightarrow> bytes \<Rightarrow> js_string \<Rightarrow> js_string \<Rightarrow> string + js_string" where
  "encrypt P iv text key =
     (let data = TextEncoder_encode text;
          keyData = TextEncoder_encode (key_material key)
      in case import_aes_key keyData of
           Inl err \<Rightarrow> Inl err
         | Inr cryptoKey \<Rightarrow>
             (let encrypted = aes_gcm_encrypt P cryptoKey iv data;
                  result = iv @ encrypted
              in case fromCharCode_spread P result of
                   Inl err \<Rightarrow> Inl err
                 | Inr binary \<Rightarrow> Inr (btoa P binary)))"

text \<open>\<open>decrypt\<close> (lines 674-696).\<close>

definition decrypt :: "crypto \<Rightarrow> js_string \<Rightarrow> js_string \<Rightarrow> string + js_string" where
  "decrypt P encryptedText key =
     (case atob P encryptedText of
        None \<Rightarrow> Inl ''InvalidCharacterError''
      | Some data \<Rightarrow>
          (let keyData = TextEncoder_encode (key_material key)
           in case import_aes_key keyData of
                Inl err \<Rightarrow> Inl err
              | Inr cryptoKey \<Rightarrow>
                  (let iv = take 12 data;
                       encrypted = drop 12 data
                   in case aes_gcm_decrypt P cryptoKey iv encrypted of
                        None \<Rightarrow> Inl ''OperationError''
                      | Some decrypted \<Rightarrow> Inr (TextDecoder_decode decrypted))))"

section \<open>The stored credential as a secret\<close>

text \<open>
  \<open>retoken g db\<close> is the database \<open>db\<close> with every stored credential \<open>t\<close> replaced by
  \<open>g t\<close>; all other columns and the ledger are those of \<open>db\<close>. A read operation does not
  expose the credential when its payload is the same on \<open>db\<close> and on \<open>retoken g db\<close>,
  the platform answering the replaced credentials as it answered the original ones.
\<close>

definition retoken :: "(string \<Rightarrow> string) \<Rightarrow> database \<Rightarrow> database" where
  "retoken g db =
     db\<lparr>workspaces := map (\<lambda>w. w\<lparr>botToken := g (botToken w)\<rparr>) (workspaces db)\<rparr>"

section \<open>Concrete inputs\<close>

text \<open>
  A small world on which the statements below are run: one team \<open>T1\<close>, a platform
  whose regular expressions are the literal ones, and a few database states.
\<close>

definition demo_auth :: auth_test_response where
  "demo_auth = \<lparr>auth_ok = True, auth_team = Some ''Acme'', auth_team_id = Some ''T1'',
     auth_url = Some ''https://acme.slack.com/'', auth_user_id = Some ''UBOT'',
     auth_bot_id = Some ''B1''\<rparr>"

definition demo_regexp :: "string \<Rightarrow> bool \<Rightarrow> string + (string \<Rightarrow> bool)" where
  "demo_regexp src i =
     (if regexp_literal src then Inr (literal_test i src)
      else Inl ''Invalid regular expression'')"

definition demo_env :: env where
  "demo_env =
     \<lparr>slack_auth_test = (\<lambda>tok. Inr demo_auth),
      slack_conversations_history = (\<lambda>tok ch oldest lim cur. Inl ''channel_not_found''),
      slack_conversations_list = (\<lambda>tok ty lim. Inl ''missing_scope''),
      slack_conversations_info = (\<lambda>tok ch. Inl ''channel_not_found''),
      slack_chat_postMessage = (\<lambda>tok ch txt. Inl ''channel_not_found''),
      date_now = 1700000000000,
      randomUUID = ''id-1'',
      ts_toISOString = (\<lambda>ts. Inr ts),
      date_toISOString = (\<lambda>t. Inr (show_int t)),
      new_RegExp = demo_regexp,
      JSON_stringify = (\<lambda>v. ''[...]'')\<rparr>"


text \<open>
  An engine that orders as SQLite does with the indexes of the schema: without a
  condition the rows of equal creation time come latest insertion first, with a
  condition in insertion order.
\<close>

definition sqlite_order ::
  "string option \<Rightarrow> string option \<Rightarrow> posted_message list \<Rightarrow> posted_message list" where
  "sqlite_order w c rows =
     (if w = None \<and> c = None then rev (sort_key pm_createdAt rows)
      else sort_key (\<lambda>m. - pm_createdAt m) rows)"


definition old_workspace :: workspace where
  "old_workspace =
     \<lparr>ws_id = ''w-1'', teamName = ''Old name'', teamId = ''T1'',
      workspaceUrl = ''https://old.slack.com/'', botToken = ''xoxb-old'', userId = ''U1'',
      botId = ''UOLD'', description = Some ''first'', createdAt = 1600000000,
      updatedAt = 1600000000, isActive = False\<rparr>"

definition old_db :: database where
  "old_db = \<lparr>workspaces = [old_workspace], postedMessages = [],
     order_by_createdAt_desc = sqlite_order, datatype_mismatch = ''datatype mismatch''\<rparr>"

definition acme_workspace :: workspace where
  "acme_workspace =
     \<lparr>ws_id = ''w-2'', teamName = ''Acme'', teamId = ''T2'',
      workspaceUrl = ''https://acme.slack.com/'', botToken = ''xoxb-acme'', userId = ''U1'',
      botId = ''UBOT'', description = None, createdAt = 1650000000,
      updatedAt = 1650000000, isActive = True\<rparr>"

definition acme_db :: database where
  "acme_db = \<lparr>workspaces = [old_workspace, acme_workspace], postedMessages = [],
     order_by_createdAt_desc = sqlite_order, datatype_mismatch = ''datatype mismatch''\<rparr>"

definition stream :: "slack_message list" where
  "stream =
     [\<lparr>msg_text = Some ''hello'', msg_user = Some ''U7'', msg_ts = Some ''1699999990.000300''\<rparr>,
      \<lparr>msg_text = Some ''<@U1> ping'', msg_user = Some ''U8'',
       msg_ts = Some ''1699999980.000200''\<rparr>,
      \<lparr>msg_text = Some ''<!channel> standup'', msg_user = Some ''U9'',
       msg_ts = Some ''1699999970.000100''\<rparr>]"

definition general_channel :: slack_channel where
  "general_channel = \<lparr>ch_id = Some ''C1'', ch_name = Some ''general'', ch_is_member = True\<rparr>"

definition sent_response :: post_response where
  "sent_response = \<lparr>post_ok = True, post_ts = Some ''1700000000.000100'',
     post_client_msg_id = Some ''m-77'', post_error = None\<rparr>"

text \<open>A platform that answers every request, whatever the token.\<close>

definition chat_env :: env where
  "chat_env = demo_env
     \<lparr>slack_conversations_history := (\<lambda>tok ch oldest lim cur.
         Inr \<lparr>hist_ok = True, hist_messages = Some stream, hist_has_more = False,
              hist_next_cursor = None\<rparr>),
      slack_conversations_list := (\<lambda>tok ty lim.
         Inr \<lparr>list_ok = True, list_channels = Some [general_channel]\<rparr>),
      slack_conversations_info := (\<lambda>tok ch.
         Inr \<lparr>info_ok = True, info_channel = Some general_channel\<rparr>),
      slack_chat_postMessage := (\<lambda>tok ch txt. Inr sent_response)\<rparr>"

text \<open>A platform whose send is refused.\<close>

definition refusing_env :: env where
  "refusing_env = chat_env
     \<lparr>slack_chat_postMessage := (\<lambda>tok ch txt.
         Inr \<lparr>post_ok = False, post_ts = None, post_client_msg_id = None,
              post_error = Some ''not_in_channel''\<rparr>)\<rparr>"



text \<open>
  A channel whose history in the window has two pages: the second page, reached through
  the cursor of the first, holds a mention of the owner.
\<close>

definition first_page :: history_response where
  "first_page =
     \<lparr>hist_ok = True,
      hist_messages = Some [\<lparr>msg_text = Some ''hello'', msg_user = Some ''U7'',
                             msg_ts = Some ''1699999990.000300''\<rparr>],
      hist_has_more = True, hist_next_cursor = Some ''page-2''\<rparr>"

definition second_page :: history_response where
  "second_page =
     \<lparr>hist_ok = True,
      hist_messages = Some [\<lparr>msg_text = Some ''<@U1> ping'', msg_user = Some ''U8'',
                             msg_ts = Some ''1699999980.000200''\<rparr>],
      hist_has_more = False, hist_next_cursor = None\<rparr>"

definition paged_env :: env where
  "paged_env = chat_env
     \<lparr>slack_conversations_history := (\<lambda>tok ch oldest lim cur.
         case cur of None \<Rightarrow> Inr first_page | Some c \<Rightarrow> Inr second_page)\<rparr>"

text \<open>A ledger of one workspace: three messages in the channels A, B and A.\<close>

definition posted_one :: posted_message where
  "posted_one = \<lparr>pm_id = ''m-1'', workspaceId = ''w-2'', channelId = ''A'',
     channelName = ''alpha'', messageText = ''one'', messageTs = ''10.000100'',
     slackMessageId = None, pm_userId = ''U1'', pm_createdAt = 10\<rparr>"

definition posted_two :: posted_message where
  "posted_two = \<lparr>pm_id = ''m-2'', workspaceId = ''w-2'', channelId = ''B'',
     channelName = ''beta'', messageText = ''two'', messageTs = ''20.000100'',
     slackMessageId = None, pm_userId = ''U1'', pm_createdAt = 20\<rparr>"

definition posted_three :: posted_message where
  "posted_three = \<lparr>pm_id = ''m-3'', workspaceId = ''w-2'', channelId = ''A'',
     channelName = ''alpha'', messageText = ''three'', messageTs = ''30.000100'',
     slackMessageId = None, pm_userId = ''U1'', pm_createdAt = 30\<rparr>"

text \<open>A fourth message, written in the same second as the third.\<close>

definition posted_four :: posted_message where
  "posted_four = \<lparr>pm_id = ''m-4'', workspaceId = ''w-2'', channelId = ''B'',
     channelName = ''beta'', messageText = ''four'', messageTs = ''30.000900'',
     slackMessageId = None, pm_userId = ''U1'', pm_createdAt = 30\<rparr>"

definition ledger_db :: database where
  "ledger_db = \<lparr>workspaces = [old_workspace, acme_workspace],
     postedMessages = [posted_one, posted_two, posted_three, posted_four],
     order_by_createdAt_desc = sqlite_order, datatype_mismatch = ''datatype mismatch''\<rparr>"

text \<open>
  A stand-in for the platform's cipher, to run the statements about \<open>encrypt\<close> and
  \<open>decrypt\<close>: it seals by writing a tag of 16 bytes, made of the key and the nonce,
  behind the data, and opens only what ends with the tag of the same key and nonce.
  Base64 is the identity, and a call takes at most 130000 arguments.
\<close>

definition toy_tag :: "bytes \<Rightarrow> bytes \<Rightarrow> bytes" where
  "toy_tag K iv = take 8 (K @ replicate 8 0) @ take 8 (iv @ replicate 8 0)"

definition toy_crypto :: crypto where
  "toy_crypto =
     \<lparr>aes_gcm_encrypt = (\<lambda>K iv data. data @ toy_tag K iv),
      aes_gcm_decrypt = (\<lambda>K iv data.
         if 16 \<le> length data \<and> drop (length data - 16) data = toy_tag K iv
         then Some (take (length data - 16) data) else None),
      btoa = (\<lambda>bytes. bytes),
      atob = (\<lambda>s. Some s),
      max_arguments = 130000\<rparr>"

definition toy_nonce :: bytes where
  "toy_nonce = [1, 2, 3, 4, 5, 6, 7, 8, 9, 10, 11, 12]"

text \<open>
  The keys "abc" and "abc0", and a text of four characters: x, U+00E9, U+20AC and
  U+1F600 (a surrogate pair).
\<close>

definition abc :: js_string where
  "abc = [0x61, 0x62, 0x63]"

definition abc0 :: js_string where
  "abc0 = [0x61, 0x62, 0x63, 0x30]"

definition greeting :: js_string where
  "greeting = [0x78, 0xE9, 0x20AC, 0xD83D, 0xDE00]"

section \<open>Helper lemmas: registration\<close>

lemma configure_workspace_update_eq:
  assumes "slack_auth_test e tok = Inr a"
    and "auth_verified a team team_id url auth_uid"
    and "filter (\<lambda>w. teamId w = team_id) (workspaces db) = w # ws"
  shows "configure_workspace e db tok uid d =
     \<lparr>result = tool_text (updated_text (configure_set e team url tok uid auth_uid d w)),
      db_after = db\<lparr>workspaces := map (\<lambda>w. if teamId w = team_id
          then configure_set e team url tok uid auth_uid d w else w) (workspaces db)\<rparr>,
      calls = [AuthTest tok]\<rparr>"
  using assms
  by (simp add: configure_workspace_def auth_verified_def select_workspaces_by_teamId_def
      update_workspaces_by_teamId_def)


lemma team_rows_cons:
  assumes "t \<in> set (map teamId ws)"
  shows "\<exists>w rest. filter (\<lambda>w. teamId w = t) ws = w # rest \<and> w \<in> set ws \<and> teamId w = t"
proof -
  have "filter (\<lambda>w. teamId w = t) ws \<noteq> []"
    using assms by (auto simp: filter_empty_conv)
  then obtain w rest where eq: "filter (\<lambda>w. teamId w = t) ws = w # rest"
    by (cases "filter (\<lambda>w. teamId w = t) ws") auto
  from filter_eq_ConsD [OF eq] have "w \<in> set ws \<and> teamId w = t"
    by auto
  then show ?thesis using eq by blast
qed

lemma demo_auth_verified:
  "auth_verified demo_auth ''Acme'' ''T1'' ''https://acme.slack.com/'' ''UBOT''"
  by (simp add: auth_verified_def demo_auth_def)









section \<open>Registration is an upsert keyed by the team identifier\<close>



section \<open>The frame of a re-registration\<close>

text \<open>
  Claim C10. On the update branch of \<open>configure_workspace\<close> (a row of the verified team
  exists) the columns \<open>id\<close>, \<open>teamId\<close> and \<open>createdAt\<close> of every row are left as they
  were; a row of the team has \<open>teamName\<close>, \<open>workspaceUrl\<close>, \<open>botToken\<close>, \<open>userId\<close>,
  \<open>botId\<close>, \<open>description\<close>, \<open>updatedAt\<close> and the active flag written and nothing else,
  the other rows and the ledger are untouched.
\<close>

theorem configure_workspace_update_frame:
  assumes auth: "slack_auth_test e tok = Inr a" "auth_verified a team T url auth_uid"
    and present: "T \<in> set (map teamId (workspaces db))"
    and out: "db' = db_after (configure_workspace e db tok uid d)"
  shows "length (workspaces db') = length (workspaces db) \<and>
         map ws_id (workspaces db') = map ws_id (workspaces db) \<and>
         map teamId (workspaces db') = map teamId (workspaces db) \<and>
         map createdAt (workspaces db') = map createdAt (workspaces db) \<and>
         workspaces db' =
           map (\<lambda>w. if teamId w = T
                     then w\<lparr>teamName := team, workspaceUrl := url, botToken := tok,
                            userId := uid, botId := auth_uid, description := or_null d,
                            updatedAt := date_now e div 1000, isActive := True\<rparr>
                     else w) (workspaces db) \<and>
         postedMessages db' = postedMessages db"
proof -
  obtain w rest where "filter (\<lambda>w. teamId w = T) (workspaces db) = w # rest"
    using team_rows_cons [OF present] by blast
  from configure_workspace_update_eq [OF auth this]
  have eq: "db' = db\<lparr>workspaces := map (\<lambda>w. if teamId w = T
          then configure_set e team url tok uid auth_uid d w else w) (workspaces db)\<rparr>"
    using out by simp
  show ?thesis
    unfolding eq by (simp add: configure_set_def now_seconds_def comp_def)
qed

theorem configure_workspace_update_frame_witness:
  "map ws_id (workspaces (db_after (configure_workspace demo_env old_db ''xoxb-2'' ''U2'' None)))
     = [''w-1''] \<and>
   map teamId (workspaces (db_after (configure_workspace demo_env old_db ''xoxb-2'' ''U2'' None)))
     = [''T1''] \<and>
   map createdAt (workspaces (db_after (configure_workspace demo_env old_db ''xoxb-2'' ''U2'' None)))
     = [1600000000] \<and>
   map isActive (workspaces (db_after (configure_workspace demo_env old_db ''xoxb-2'' ''U2'' None)))
     = [True] \<and>
   map botToken (workspaces (db_after (configure_workspace demo_env old_db ''xoxb-2'' ''U2'' None)))
     = [''xoxb-2'']"
proof -
  have a: "slack_auth_test demo_env ''xoxb-2'' = Inr demo_auth"
    by (simp add: demo_env_def)
  have p: "''T1'' \<in> set (map teamId (workspaces old_db))"
    by (simp add: old_db_def old_workspace_def)
  from configure_workspace_update_frame [OF a demo_auth_verified p refl, of "''U2''" None]
  show ?thesis
    by (simp add: old_db_def old_workspace_def)
qed

section \<open>Every other operation resolves an active workspace first\<close>

lemma select_active_workspace_None:
  "select_active_workspace db w = None \<longleftrightarrow>
     \<not> (\<exists>r\<in>set (workspaces db). ws_id r = w \<and> isActive r)"
proof -
  have "select_active_workspace db w = None \<longleftrightarrow>
        filter (\<lambda>r. ws_id r = w \<and> isActive r) (workspaces db) = []"
    by (simp add: select_active_workspace_def split: list.splits)
  also have "\<dots> \<longleftrightarrow> \<not> (\<exists>r\<in>set (workspaces db). ws_id r = w \<and> isActive r)"
    by (simp add: filter_empty_conv)
  finally show ?thesis .
qed

lemma select_active_workspace_Some:
  assumes "select_active_workspace db w = Some r"
  shows "r \<in> set (workspaces db) \<and> ws_id r = w \<and> isActive r"
proof -
  from assms obtain rest where
    "filter (\<lambda>r. ws_id r = w \<and> isActive r) (workspaces db) = r # rest"
    by (auto simp: select_active_workspace_def split: list.splits)
  from filter_eq_ConsD [OF this] show ?thesis by auto
qed

text \<open>
  Claim C3. When no workspace row has the identifier \<open>w\<close>, or the rows that have it are
  inactive, each of \<open>get_mentions\<close>, \<open>list_user_channels\<close>, \<open>post_message\<close> and
  \<open>get_posted_messages\<close> answers "Workspace not found or inactive" as an error, leaves
  the database as it was and sends no request to the platform: no credential, of this
  or of any other workspace, is used.
\<close>

theorem unknown_or_inactive_workspace_rejected:
  assumes "\<not> (\<exists>r\<in>set (workspaces db). ws_id r = w \<and> isActive r)"
  shows "get_mentions e db w channel_id days_back limit =
           \<lparr>result = tool_error ''Workspace not found or inactive'', db_after = db, calls = []\<rparr> \<and>
         list_user_channels e db w limit private_only =
           \<lparr>result = tool_error ''Workspace not found or inactive'', db_after = db, calls = []\<rparr> \<and>
         post_message e db w channel_id message_text =
           \<lparr>result = tool_error ''Workspace not found or inactive'', db_after = db, calls = []\<rparr> \<and>
         get_posted_messages e db w limit =
           \<lparr>result = tool_error ''Workspace not found or inactive'', db_after = db, calls = []\<rparr>"
proof -
  have none: "select_active_workspace db w = None"
    by (rule iffD2 [OF select_active_workspace_None assms])
  show ?thesis
    by (simp add: none get_mentions_def list_user_channels_def post_message_def
        get_posted_messages_def)
qed

theorem unknown_or_inactive_workspace_rejected_witness:
  "calls (get_mentions chat_env acme_db ''w-1'' ''C1'' 1 5) = [] \<and>
   isError (result (get_mentions chat_env acme_db ''w-1'' ''C1'' 1 5)) \<and>
   calls (list_user_channels chat_env acme_db ''w-1'' 5 False) = [] \<and>
   isError (result (list_user_channels chat_env acme_db ''w-1'' 5 False)) \<and>
   calls (post_message chat_env acme_db ''w-1'' ''C1'' ''hi'') = [] \<and>
   db_after (post_message chat_env acme_db ''w-1'' ''C1'' ''hi'') = acme_db \<and>
   calls (get_posted_messages chat_env acme_db ''w-1'' 5) = [] \<and>
   isError (result (get_posted_messages chat_env acme_db ''w-1'' 5)) \<and>
   calls (post_message chat_env acme_db ''w-9'' ''C1'' ''hi'') = [] \<and>
   isError (result (post_message chat_env acme_db ''w-9'' ''C1'' ''hi''))"
proof -
  have inactive: "\<not> (\<exists>r\<in>set (workspaces acme_db). ws_id r = ''w-1'' \<and> isActive r)"
    by (simp add: acme_db_def old_workspace_def acme_workspace_def)
  have unknown: "\<not> (\<exists>r\<in>set (workspaces acme_db). ws_id r = ''w-9'' \<and> isActive r)"
    by (simp add: acme_db_def old_workspace_def acme_workspace_def)
  show ?thesis
    using unknown_or_inactive_workspace_rejected [OF inactive, of chat_env "''C1''" 1 5 False "''hi''"]
      unknown_or_inactive_workspace_rejected [OF unknown, of chat_env "''C1''" 1 5 False "''hi''"]
    by (simp add: tool_error_def)
qed

section \<open>The ledger grows exactly when the send is confirmed\<close>

lemma post_message_unfold:
  assumes "select_active_workspace db w = Some workspace"
    and "slack_conversations_info e (botToken workspace) ch = Inr channelInfo"
  shows "post_message e db w ch txt =
     (case slack_chat_postMessage e (botToken workspace) ch txt of
        Inl msg \<Rightarrow>
          \<lparr>result = tool_error (''Error posting message: '' @ msg), db_after = db,
           calls = [ConversationsInfo (botToken workspace) ch,
                    ChatPostMessage (botToken workspace) ch txt]\<rparr>
      | Inr res \<Rightarrow>
          if send_confirmed (Inr res) then
            (case insert_posted_message
                    (posted_values e workspace w ch (channel_name_of channelInfo ch) txt
                       (or_default (post_ts res) []) (post_client_msg_id res)) db of
               Inl msg \<Rightarrow>
                 \<lparr>result = tool_error (''Error posting message: '' @ msg), db_after = db,
                  calls = [ConversationsInfo (botToken workspace) ch,
                           ChatPostMessage (botToken workspace) ch txt]\<rparr>
             | Inr (db', postedMessage) \<Rightarrow>
                 \<lparr>result = tool_text (posted_text workspace ch (channel_name_of channelInfo ch)
                      txt (or_default (post_ts res) []) (pm_id postedMessage)),
                  db_after = db',
                  calls = [ConversationsInfo (botToken workspace) ch,
                           ChatPostMessage (botToken workspace) ch txt]\<rparr>)
          else \<lparr>result = tool_error ''Failed to post message to Slack'', db_after = db,
                 calls = [ConversationsInfo (botToken workspace) ch,
                          ChatPostMessage (botToken workspace) ch txt]\<rparr>)"
  using assms
  by (auto simp: post_message_def send_confirmed_def truthy_def or_default_def Let_def
      split: sum.splits option.splits)

lemma post_message_lookup_rejected:
  assumes "select_active_workspace db w = Some workspace"
    and "slack_conversations_info e (botToken workspace) ch = Inl msg"
  shows "post_message e db w ch txt =
     \<lparr>result = tool_error (''Error posting message: '' @ msg), db_after = db,
      calls = [ConversationsInfo (botToken workspace) ch]\<rparr>"
  using assms by (simp add: post_message_def Let_def)

lemma post_message_sent_calls:
  assumes "select_active_workspace db w = Some workspace"
    and "slack_conversations_info e (botToken workspace) ch = Inr channelInfo"
  shows "calls (post_message e db w ch txt) =
     [ConversationsInfo (botToken workspace) ch, ChatPostMessage (botToken workspace) ch txt]"
  unfolding post_message_unfold [OF assms]
  by (simp split: sum.splits prod.splits)

text \<open>
  Claim C6. Let \<open>post_message\<close> run for an active workspace, the identifier drawn for
  the row being new. When the channel lookup rejects, nothing is sent and nothing is
  written. Otherwise the message is sent once. When the send is refused (the call
  rejects, the platform reports a failure, or the answer has no timestamp), the result
  is an error and the database is the one before the call. When the send is confirmed,
  exactly one row is appended to the ledger; the row holds the timestamp the platform
  assigned and the platform's message identifier when there is one (null otherwise). So
  the ledger grows by one row if and only if a send was made and confirmed.
\<close>

theorem post_message_ledger:
  assumes ws: "select_active_workspace db w = Some workspace"
    and look: "slack_conversations_info e (botToken workspace) ch = looked"
    and sent: "slack_chat_postMessage e (botToken workspace) ch txt = sent"
    and fresh: "randomUUID e \<notin> set (map pm_id (postedMessages db))"
    and out: "out = post_message e db w ch txt"
  shows "(if isl looked
          then calls out = [ConversationsInfo (botToken workspace) ch] \<and>
               db_after out = db \<and> isError (result out)
          else calls out = [ConversationsInfo (botToken workspace) ch,
                            ChatPostMessage (botToken workspace) ch txt] \<and>
               (if send_confirmed sent
                then \<exists>res ts row.
                       sent = Inr res \<and> post_ts res = Some ts \<and>
                       postedMessages (db_after out) = postedMessages db @ [row] \<and>
                       messageTs row = ts \<and>
                       slackMessageId row = or_null (post_client_msg_id res) \<and>
                       pm_id row = randomUUID e \<and> workspaceId row = w \<and>
                       channelId row = ch \<and> messageText row = txt \<and>
                       pm_userId row = userId workspace \<and>
                       workspaces (db_after out) = workspaces db \<and>
                       \<not> isError (result out)
                else db_after out = db \<and> isError (result out))) \<and>
         length (postedMessages (db_after out)) =
           length (postedMessages db) +
           (if \<not> isl looked \<and> send_confirmed sent then 1 else 0)"
proof (cases looked)
  case (Inl msg)
  have "out = \<lparr>result = tool_error (''Error posting message: '' @ msg), db_after = db,
      calls = [ConversationsInfo (botToken workspace) ch]\<rparr>"
    unfolding out using ws look Inl by (simp add: post_message_lookup_rejected)
  then show ?thesis
    using Inl by (simp add: tool_error_def)
next
  case (Inr channelInfo)
  have info: "slack_conversations_info e (botToken workspace) ch = Inr channelInfo"
    using look Inr by simp
  have trace: "calls out = [ConversationsInfo (botToken workspace) ch,
                            ChatPostMessage (botToken workspace) ch txt]"
    unfolding out by (rule post_message_sent_calls [OF ws info])
  show ?thesis
  proof (cases "send_confirmed sent")
    case False
    then have "db_after out = db \<and> isError (result out)"
      unfolding out post_message_unfold [OF ws info] sent
      by (cases sent) (simp_all add: tool_error_def)
    then show ?thesis using False Inr trace by simp
  next
    case True
    then obtain res ts where res: "sent = Inr res" "post_ok res" "post_ts res = Some ts" "ts \<noteq> []"
      by (cases sent) (auto simp: send_confirmed_def truthy_def split: option.splits)
    let ?row = "posted_values e workspace w ch (channel_name_of channelInfo ch) txt ts
                  (post_client_msg_id res)"
    have member: "w \<in> set (map ws_id (workspaces db))"
      using select_active_workspace_Some [OF ws] by force
    have ins: "insert_posted_message ?row db =
        Inr (db\<lparr>postedMessages := postedMessages db @ [?row]\<rparr>, ?row)"
      using fresh member by (simp add: insert_posted_message_def posted_values_def)
    have eq: "out = \<lparr>result = tool_text (posted_text workspace ch (channel_name_of channelInfo ch)
                        txt ts (pm_id ?row)),
                    db_after = db\<lparr>postedMessages := postedMessages db @ [?row]\<rparr>,
                    calls = [ConversationsInfo (botToken workspace) ch,
                             ChatPostMessage (botToken workspace) ch txt]\<rparr>"
      unfolding out post_message_unfold [OF ws info] sent res(1)
      using True res ins by (simp add: or_default_def)
    have "postedMessages (db_after out) = postedMessages db @ [?row] \<and>
          messageTs ?row = ts \<and> slackMessageId ?row = or_null (post_client_msg_id res) \<and>
          pm_id ?row = randomUUID e \<and> workspaceId ?row = w \<and> channelId ?row = ch \<and>
          messageText ?row = txt \<and> pm_userId ?row = userId workspace \<and>
          workspaces (db_after out) = workspaces db \<and> \<not> isError (result out)"
      by (simp add: eq posted_values_def tool_text_def)
    then have "\<exists>res ts row.
                   sent = Inr res \<and> post_ts res = Some ts \<and>
                   postedMessages (db_after out) = postedMessages db @ [row] \<and>
                   messageTs row = ts \<and>
                   slackMessageId row = or_null (post_client_msg_id res) \<and>
                   pm_id row = randomUUID e \<and> workspaceId row = w \<and> channelId row = ch \<and>
                   messageText row = txt \<and> pm_userId row = userId workspace \<and>
                   workspaces (db_after out) = workspaces db \<and>
                   \<not> isError (result out)"
      using res(1,3) by (intro exI [of _ res] exI [of _ ts] exI [of _ ?row]) simp
    moreover have "length (postedMessages (db_after out)) = length (postedMessages db) + 1"
      by (simp add: eq)
    ultimately show ?thesis using True Inr trace by simp
  qed
qed

lemma acme_active: "select_active_workspace acme_db ''w-2'' = Some acme_workspace"
  by (simp add: select_active_workspace_def acme_db_def acme_workspace_def old_workspace_def)

theorem post_message_ledger_witness:
  "map messageTs (postedMessages (db_after (post_message chat_env acme_db ''w-2'' ''C1'' ''launch'')))
     = [''1700000000.000100''] \<and>
   map slackMessageId
     (postedMessages (db_after (post_message chat_env acme_db ''w-2'' ''C1'' ''launch'')))
     = [Some ''m-77''] \<and>
   db_after (post_message refusing_env acme_db ''w-2'' ''C1'' ''launch'') = acme_db \<and>
   isError (result (post_message refusing_env acme_db ''w-2'' ''C1'' ''launch''))"
proof -
  have info: "slack_conversations_info chat_env (botToken acme_workspace) ''C1'' =
      Inr \<lparr>info_ok = True, info_channel = Some general_channel\<rparr>"
    by (simp add: chat_env_def)
  have info': "slack_conversations_info refusing_env (botToken acme_workspace) ''C1'' =
      Inr \<lparr>info_ok = True, info_channel = Some general_channel\<rparr>"
    by (simp add: refusing_env_def chat_env_def)
  have sent: "slack_chat_postMessage chat_env (botToken acme_workspace) ''C1'' ''launch'' =
      Inr sent_response"
    by (simp add: chat_env_def)
  have sent': "slack_chat_postMessage refusing_env (botToken acme_workspace) ''C1'' ''launch'' =
      Inr \<lparr>post_ok = False, post_ts = None, post_client_msg_id = None,
           post_error = Some ''not_in_channel''\<rparr>"
    by (simp add: refusing_env_def)
  have fresh: "randomUUID chat_env \<notin> set (map pm_id (postedMessages acme_db))"
    by (simp add: acme_db_def)
  have fresh': "randomUUID refusing_env \<notin> set (map pm_id (postedMessages acme_db))"
    by (simp add: acme_db_def)
  have yes: "send_confirmed (Inr sent_response)"
    by (simp add: send_confirmed_def sent_response_def truthy_def)
  have no: "\<not> send_confirmed (Inr \<lparr>post_ok = False, post_ts = None, post_client_msg_id = None,
           post_error = Some ''not_in_channel''\<rparr>)"
    by (simp add: send_confirmed_def)
  have nil: "postedMessages acme_db = []"
    by (simp add: acme_db_def)
  have a: "map messageTs
        (postedMessages (db_after (post_message chat_env acme_db ''w-2'' ''C1'' ''launch'')))
       = [''1700000000.000100''] \<and>
     map slackMessageId
       (postedMessages (db_after (post_message chat_env acme_db ''w-2'' ''C1'' ''launch'')))
       = [Some ''m-77'']"
    using post_message_ledger [OF acme_active info sent fresh refl]
    apply (simp only: yes if_True nil append_Nil sum.disc if_False)
    apply (elim exE conjE)
    apply (clarsimp simp: sent_response_def or_null_def truthy_def)
    done
  have b: "db_after (post_message refusing_env acme_db ''w-2'' ''C1'' ''launch'') = acme_db \<and>
     isError (result (post_message refusing_env acme_db ''w-2'' ''C1'' ''launch''))"
    using post_message_ledger [OF acme_active info' sent' fresh' refl]
    by (simp only: no if_False sum.disc)
  from a b show ?thesis by simp
qed

section \<open>Mentions are found by a case-insensitive search for two tokens\<close>





lemma mention_source_literal:
  "regexp_literal uid \<Longrightarrow> regexp_literal (''<@'' @ uid @ ''>'')"
  by (simp add: regexp_literal_def regexp_syntax_chars_def)

lemma demo_regexp_ok: "new_RegExp e = demo_regexp \<Longrightarrow> regexp_engine_ok e"
  by (simp add: regexp_engine_ok_def demo_regexp_def)




lemma find_mentions_eq:
  assumes eng: "regexp_engine_ok e" and lit: "regexp_literal (userId w)"
  shows "find_mentions e w ch limit msgs =
     map_throwing (to_mention e w ch)
       (take limit (filter (is_mention (literal_test True (''<@'' @ userId w @ ''>''))) msgs))"
proof -
  have "new_RegExp e (''<@'' @ userId w @ ''>'') True
          = Inr (literal_test True (''<@'' @ userId w @ ''>''))"
    using eng mention_source_literal [OF lit] by (simp only: regexp_engine_ok_def)
  then show ?thesis
    by (simp add: find_mentions_def)
qed


lemma example_tests:
  "\<not> literal_test True ''<@U1>'' ''hello''"
  "\<not> literal_test True ''<!channel>'' ''hello''"
  "literal_test True ''<@U1>'' ''<@U1> ping''"
  "literal_test True ''<!channel>'' ''<!channel> standup''"
  by code_simp+


lemma show_nat_small: "show_nat (Suc 0) = ''1''" "show_nat 1 = ''1''" "show_nat 2 = ''2''"
  "show_nat (Suc (Suc 0)) = ''2''"
  by (simp_all add: show_nat.simps digit_char_def)




lemma acme_owner_literal: "regexp_literal (userId acme_workspace)"
  by (simp add: acme_workspace_def regexp_literal_def regexp_syntax_chars_def)







section \<open>One request, one page\<close>

lemma find_mentions_env:
  assumes "new_RegExp e' = new_RegExp e" and "ts_toISOString e' = ts_toISOString e"
  shows "find_mentions e' w ch limit msgs = find_mentions e w ch limit msgs"
proof -
  have tm: "to_mention e' w ch = to_mention e w ch"
    by (rule ext) (simp add: to_mention_def assms)
  show ?thesis
    unfolding find_mentions_def assms(1) tm ..
qed

lemma get_mentions_calls:
  "calls (get_mentions e db w ch d l) = [] \<or>
   (\<exists>r. select_active_workspace db w = Some r \<and>
        calls (get_mentions e db w ch d l) =
          [ConversationsHistory (botToken r) ch (show_int (oldestTimestamp e d)) 200 None])"
  by (simp add: get_mentions_def Let_def split: option.splits sum.splits)

text \<open>
  Claim C5, as the code has it. \<open>get_mentions\<close> sends at most one request to the
  history method: for the channel, from the lower time bound, with a page size of 200
  and without a cursor. Its result is computed from the page this request returns and
  from nothing else: two platforms that answer the cursor-less request alike give the
  same result, whatever they would answer to a request with a cursor.
\<close>

theorem get_mentions_single_page:
  assumes now: "date_now e' = date_now e"
    and rx: "new_RegExp e' = new_RegExp e"
    and iso: "ts_toISOString e' = ts_toISOString e"
    and page: "\<forall>tok chan oldest lim.
        slack_conversations_history e' tok chan oldest lim None =
        slack_conversations_history e tok chan oldest lim None"
  shows "get_mentions e' db w ch d l = get_mentions e db w ch d l \<and>
         length (calls (get_mentions e db w ch d l)) \<le> 1 \<and>
         (\<forall>c \<in> set (calls (get_mentions e db w ch d l)).
            \<exists>tok. c = ConversationsHistory tok ch (show_int (oldestTimestamp e d)) 200 None)"
proof -
  have old: "oldestTimestamp e' d = oldestTimestamp e d"
    by (simp add: oldestTimestamp_def now)
  have fm: "find_mentions e' r ch l msgs = find_mentions e r ch l msgs" for r msgs
    by (rule find_mentions_env [OF rx iso])
  have same: "get_mentions e' db w ch d l = get_mentions e db w ch d l"
    unfolding get_mentions_def old Let_def by (simp only: page [rule_format] fm)
  from get_mentions_calls [of e db w ch d l]
  have "length (calls (get_mentions e db w ch d l)) \<le> 1 \<and>
         (\<forall>c \<in> set (calls (get_mentions e db w ch d l)).
            \<exists>tok. c = ConversationsHistory tok ch (show_int (oldestTimestamp e d)) 200 None)"
    by auto
  with same show ?thesis by simp
qed

lemma paged_oldest: "show_int (oldestTimestamp paged_env (Suc 0)) = ''1699913600''"
  by (simp add: oldestTimestamp_def paged_env_def chat_env_def demo_env_def show_int_def
      show_nat.simps digit_char_def)

lemma paged_regexp_ok: "regexp_engine_ok paged_env"
  by (rule demo_regexp_ok) (simp add: paged_env_def chat_env_def demo_env_def)

lemma first_page_no_mention:
  "find_mentions paged_env acme_workspace ''C1'' 5
     [\<lparr>msg_text = Some ''hello'', msg_user = Some ''U7'',
       msg_ts = Some ''1699999990.000300''\<rparr>] = Inr []"
proof -
  have "filter (is_mention (literal_test True ''<@U1>''))
          [\<lparr>msg_text = Some ''hello'', msg_user = Some ''U7'',
            msg_ts = Some ''1699999990.000300''\<rparr>] = []"
    using example_tests by (simp add: is_mention_def or_default_def)
  then show ?thesis
    using find_mentions_eq [OF paged_regexp_ok acme_owner_literal, of "''C1''" 5]
    by (simp add: acme_workspace_def)
qed

lemma second_page_mention:
  "find_mentions paged_env acme_workspace ''C1'' 5
     [\<lparr>msg_text = Some ''<@U1> ping'', msg_user = Some ''U8'',
       msg_ts = Some ''1699999980.000200''\<rparr>] =
   Inr [\<lparr>m_text = ''<@U1> ping'', m_user = ''U8'', m_timestamp = ''1699999980.000200'',
         m_permalink = ''https://acme.slack.com/archives/C1/p1699999980000200''\<rparr>]"
proof -
  have iso: "ts_toISOString paged_env = (\<lambda>ts. Inr ts)"
    by (simp add: paged_env_def chat_env_def demo_env_def)
  have "filter (is_mention (literal_test True ''<@U1>''))
          [\<lparr>msg_text = Some ''<@U1> ping'', msg_user = Some ''U8'',
            msg_ts = Some ''1699999980.000200''\<rparr>] =
          [\<lparr>msg_text = Some ''<@U1> ping'', msg_user = Some ''U8'',
            msg_ts = Some ''1699999980.000200''\<rparr>]"
    using example_tests by (simp add: is_mention_def or_default_def)
  then show ?thesis
    using find_mentions_eq [OF paged_regexp_ok acme_owner_literal, of "''C1''" 5]
    by (simp add: acme_workspace_def to_mention_def iso truthy_def or_default_def)
qed

theorem get_mentions_single_page_counterexample:
  "slack_conversations_history paged_env ''xoxb-acme'' ''C1'' ''1699913600'' 200 None =
     Inr first_page \<and>
   hist_has_more first_page \<and> hist_next_cursor first_page = Some ''page-2'' \<and>
   slack_conversations_history paged_env ''xoxb-acme'' ''C1'' ''1699913600'' 200 (Some ''page-2'') =
     Inr second_page \<and>
   hist_messages second_page =
     Some [\<lparr>msg_text = Some ''<@U1> ping'', msg_user = Some ''U8'',
            msg_ts = Some ''1699999980.000200''\<rparr>] \<and>
   find_mentions paged_env acme_workspace ''C1'' 5
     [\<lparr>msg_text = Some ''<@U1> ping'', msg_user = Some ''U8'',
       msg_ts = Some ''1699999980.000200''\<rparr>] =
     Inr [\<lparr>m_text = ''<@U1> ping'', m_user = ''U8'', m_timestamp = ''1699999980.000200'',
           m_permalink = ''https://acme.slack.com/archives/C1/p1699999980000200''\<rparr>] \<and>
   get_mentions paged_env acme_db ''w-2'' ''C1'' 1 5 =
     \<lparr>result = tool_text ''No mentions or channel notifications found in the last 1 day(s)'',
      db_after = acme_db,
      calls = [ConversationsHistory ''xoxb-acme'' ''C1'' ''1699913600'' 200 None]\<rparr>"
proof -
  have hist: "slack_conversations_history paged_env tok ch oldest lim cur =
      (case cur of None \<Rightarrow> Inr first_page | Some c \<Rightarrow> Inr second_page)" for tok ch oldest lim cur
    by (simp add: paged_env_def)
  have tok: "botToken acme_workspace = ''xoxb-acme''"
    by (simp add: acme_workspace_def)
  have fp: "hist_ok first_page" "hist_has_more first_page"
    "hist_next_cursor first_page = Some ''page-2''"
    "hist_messages first_page = Some [\<lparr>msg_text = Some ''hello'', msg_user = Some ''U7'',
       msg_ts = Some ''1699999990.000300''\<rparr>]"
    by (simp_all add: first_page_def)
  have sp: "hist_messages second_page =
     Some [\<lparr>msg_text = Some ''<@U1> ping'', msg_user = Some ''U8'',
            msg_ts = Some ''1699999980.000200''\<rparr>]"
    by (simp add: second_page_def)
  have run: "get_mentions paged_env acme_db ''w-2'' ''C1'' 1 5 =
     \<lparr>result = tool_text ''No mentions or channel notifications found in the last 1 day(s)'',
      db_after = acme_db,
      calls = [ConversationsHistory ''xoxb-acme'' ''C1'' ''1699913600'' 200 None]\<rparr>"
    by (simp add: get_mentions_def acme_active paged_oldest hist tok fp first_page_no_mention
        show_nat_small Let_def)
  show ?thesis
    by (simp only: hist option.case fp sp second_page_mention run simp_thms)
qed

theorem get_mentions_single_page_witness:
  "get_mentions
     (paged_env\<lparr>slack_conversations_history :=
        (\<lambda>tok ch oldest lim cur. Inr first_page)\<rparr>) acme_db ''w-2'' ''C1'' 1 5 =
   get_mentions paged_env acme_db ''w-2'' ''C1'' 1 5 \<and>
   length (calls (get_mentions paged_env acme_db ''w-2'' ''C1'' 1 5)) \<le> 1"
proof -
  let ?e' = "paged_env\<lparr>slack_conversations_history :=
        (\<lambda>tok ch oldest lim cur. Inr first_page)\<rparr>"
  have page: "\<forall>tok chan oldest lim.
        slack_conversations_history ?e' tok chan oldest lim None =
        slack_conversations_history paged_env tok chan oldest lim None"
    by (simp add: paged_env_def)
  have now: "date_now ?e' = date_now paged_env" by simp
  have rx: "new_RegExp ?e' = new_RegExp paged_env" by simp
  have iso: "ts_toISOString ?e' = ts_toISOString paged_env" by simp
  from get_mentions_single_page [OF now rx iso page, of acme_db "''w-2''" "''C1''" 1 5]
  show ?thesis by (elim conjE) (intro conjI)
qed

section \<open>No read operation exposes the stored credential\<close>

lemma select_active_workspace_retoken:
  "select_active_workspace (retoken g db) w =
     map_option (\<lambda>r. r\<lparr>botToken := g (botToken r)\<rparr>) (select_active_workspace db w)"
proof -
  have "filter (\<lambda>r. ws_id r = w \<and> isActive r)
          (map (\<lambda>w. w\<lparr>botToken := g (botToken w)\<rparr>) (workspaces db)) =
        map (\<lambda>w. w\<lparr>botToken := g (botToken w)\<rparr>)
          (filter (\<lambda>r. ws_id r = w \<and> isActive r) (workspaces db))"
    by (simp add: filter_map comp_def)
  then show ?thesis
    by (simp add: select_active_workspace_def retoken_def split: list.splits)
qed

lemma find_mentions_retoken:
  assumes "new_RegExp e' = new_RegExp e" and "ts_toISOString e' = ts_toISOString e"
  shows "find_mentions e' (r\<lparr>botToken := t\<rparr>) ch limit msgs = find_mentions e r ch limit msgs"
proof -
  have tm: "to_mention e' (r\<lparr>botToken := t\<rparr>) ch = to_mention e r ch"
    by (rule ext) (simp add: to_mention_def assms split: sum.splits)
  show ?thesis
    unfolding find_mentions_def assms(1) tm by simp
qed

lemma list_workspaces_retoken:
  "result (list_workspaces e' (retoken g db)) = result (list_workspaces e db)"
proof -
  have "map (\<lambda>w. (teamName w, description w))
          (filter isActive (map (\<lambda>w. w\<lparr>botToken := g (botToken w)\<rparr>) (workspaces db))) =
        map (\<lambda>w. (teamName w, description w)) (filter isActive (workspaces db))"
    by (simp add: filter_map comp_def)
  then show ?thesis
    by (simp add: list_workspaces_def retoken_def Let_def)
qed

lemma get_mentions_retoken:
  assumes now: "date_now e' = date_now e"
    and rx: "new_RegExp e' = new_RegExp e"
    and iso: "ts_toISOString e' = ts_toISOString e"
    and hist: "\<forall>t c old lim cur. slack_conversations_history e' (g t) c old lim cur =
                 slack_conversations_history e t c old lim cur"
  shows "result (get_mentions e' (retoken g db) w ch d l) = result (get_mentions e db w ch d l)"
proof (cases "select_active_workspace db w")
  case None
  then show ?thesis
    by (simp add: get_mentions_def select_active_workspace_retoken)
next
  case (Some r)
  have old: "oldestTimestamp e' d = oldestTimestamp e d"
    by (simp add: oldestTimestamp_def now)
  show ?thesis
    unfolding get_mentions_def select_active_workspace_retoken Some old Let_def
    by (simp add: hist [rule_format] find_mentions_retoken [OF rx iso]
        split: sum.splits option.splits)
qed


lemma list_user_channels_retoken:
  assumes lst: "\<forall>t ty lim. slack_conversations_list e' (g t) ty lim =
                 slack_conversations_list e t ty lim"
  shows "result (list_user_channels e' (retoken g db) w l p) =
         result (list_user_channels e db w l p)"
proof (cases "select_active_workspace db w")
  case None
  then show ?thesis
    by (simp add: list_user_channels_def select_active_workspace_retoken)
next
  case (Some r)
  show ?thesis
    unfolding list_user_channels_def select_active_workspace_retoken Some Let_def
    by (simp add: lst [rule_format] split: sum.splits)
qed

lemma posted_entry_retoken:
  assumes "date_toISOString e' = date_toISOString e"
  shows "posted_entry e' (r\<lparr>botToken := t\<rparr>) = posted_entry e r"
  by (rule ext) (simp add: posted_entry_def assms split: sum.splits)

lemma get_posted_messages_retoken:
  assumes iso: "date_toISOString e' = date_toISOString e"
  shows "result (get_posted_messages e' (retoken g db) w l) =
         result (get_posted_messages e db w l)"
proof (cases "select_active_workspace db w")
  case None
  then show ?thesis
    by (simp add: get_posted_messages_def select_active_workspace_retoken)
next
  case (Some r)
  have pm: "postedMessages (retoken g db) = postedMessages db"
    "order_by_createdAt_desc (retoken g db) = order_by_createdAt_desc db"
    by (simp_all add: retoken_def)
  show ?thesis
    unfolding get_posted_messages_def select_active_workspace_retoken Some Let_def pm
    by (simp add: posted_entry_retoken [OF iso] split: sum.splits)
qed

lemma list_workspaces_B_retoken:
  assumes "JSON_stringify e' = JSON_stringify e"
  shows "result (list_workspaces_B e' (retoken g db) u) = result (list_workspaces_B e db u)"
proof -
  have "map workspace_json (select_workspaces_of_user (retoken g db) u) =
        map workspace_json (select_workspaces_of_user db u)"
    by (simp add: select_workspaces_of_user_def retoken_def filter_map comp_def
        workspace_json_def)
  moreover from this
  have "length (select_workspaces_of_user (retoken g db) u) =
        length (select_workspaces_of_user db u)"
    by (rule map_eq_imp_length_eq)
  ultimately show ?thesis
    by (simp add: list_workspaces_B_def Let_def assms)
qed

lemma get_posted_messages_B_retoken:
  assumes "JSON_stringify e' = JSON_stringify e"
  shows "result (get_posted_messages_B e' (retoken g db) w c l off) =
         result (get_posted_messages_B e db w c l off)"
  by (simp add: get_posted_messages_B_def select_posted_messages_def retoken_def assms
      split: sum.splits option.splits)

text \<open>
  Claim C9. Replace every stored credential of a database by another value, and let the
  platform answer the replaced credentials as it answered the original ones. Then the
  payloads of \<open>list_workspaces\<close>, \<open>get_mentions\<close>, \<open>list_user_channels\<close> and
  \<open>get_posted_messages\<close> are the same as before, and so are those of the owner-filtered
  listing and of the paginated ledger query of src/unnamed/part_000: what a read operation
  returns is computed from the other columns and from the platform's answers, never
  from the stored credential.
\<close>

theorem stored_credential_not_exposed:
  assumes now: "date_now e' = date_now e"
    and rx: "new_RegExp e' = new_RegExp e"
    and iso: "ts_toISOString e' = ts_toISOString e"
    and diso: "date_toISOString e' = date_toISOString e"
    and json: "JSON_stringify e' = JSON_stringify e"
    and hist: "\<forall>t c old lim cur. slack_conversations_history e' (g t) c old lim cur =
                 slack_conversations_history e t c old lim cur"
    and lst: "\<forall>t ty lim. slack_conversations_list e' (g t) ty lim =
                 slack_conversations_list e t ty lim"
  shows "result (list_workspaces e' (retoken g db)) = result (list_workspaces e db) \<and>
         result (get_mentions e' (retoken g db) w ch d l) = result (get_mentions e db w ch d l) \<and>
         result (list_user_channels e' (retoken g db) w l p) =
           result (list_user_channels e db w l p) \<and>
         result (get_posted_messages e' (retoken g db) w l) =
           result (get_posted_messages e db w l) \<and>
         result (list_workspaces_B e' (retoken g db) u) = result (list_workspaces_B e db u) \<and>
         result (get_posted_messages_B e' (retoken g db) fw fc lmt off) =
           result (get_posted_messages_B e db fw fc lmt off)"
  using list_workspaces_retoken [of e' g db e]
    get_mentions_retoken [OF now rx iso hist, of db w ch d l]
    list_user_channels_retoken [OF lst, of db w l p]
    get_posted_messages_retoken [OF diso, of g db w l]
    list_workspaces_B_retoken [OF json, of g db u]
    get_posted_messages_B_retoken [OF json, of g db fw fc lmt off]
  by (intro conjI)

theorem stored_credential_not_exposed_witness:
  "botToken (hd (filter isActive (workspaces (retoken (\<lambda>t. ''xoxb-rotated'') acme_db)))) =
     ''xoxb-rotated'' \<and>
   botToken (hd (filter isActive (workspaces acme_db))) = ''xoxb-acme'' \<and>
   result (list_workspaces chat_env (retoken (\<lambda>t. ''xoxb-rotated'') acme_db)) =
     result (list_workspaces chat_env acme_db) \<and>
   result (get_mentions chat_env (retoken (\<lambda>t. ''xoxb-rotated'') acme_db) ''w-2'' ''C1'' 1 5) =
     result (get_mentions chat_env acme_db ''w-2'' ''C1'' 1 5) \<and>
   result (list_user_channels chat_env (retoken (\<lambda>t. ''xoxb-rotated'') acme_db) ''w-2'' 5 False) =
     result (list_user_channels chat_env acme_db ''w-2'' 5 False) \<and>
   result (get_posted_messages chat_env (retoken (\<lambda>t. ''xoxb-rotated'') acme_db) ''w-2'' 5) =
     result (get_posted_messages chat_env acme_db ''w-2'' 5)"
proof -
  have hist: "\<forall>t c old lim cur.
      slack_conversations_history chat_env ((\<lambda>t. ''xoxb-rotated'') t) c old lim cur =
      slack_conversations_history chat_env t c old lim cur"
    by (simp add: chat_env_def)
  have lst: "\<forall>t ty lim. slack_conversations_list chat_env ((\<lambda>t. ''xoxb-rotated'') t) ty lim =
      slack_conversations_list chat_env t ty lim"
    by (simp add: chat_env_def)
  have tokens:
    "botToken (hd (filter isActive (workspaces (retoken (\<lambda>t. ''xoxb-rotated'') acme_db)))) =
       ''xoxb-rotated''"
    "botToken (hd (filter isActive (workspaces acme_db))) = ''xoxb-acme''"
    by (simp_all add: retoken_def acme_db_def acme_workspace_def old_workspace_def)
  from stored_credential_not_exposed [OF refl refl refl refl refl hist lst,
      of acme_db "''w-2''" "''C1''" 1 5 False "''U1''" None None 50 0] tokens
  show ?thesis by (elim conjE) (intro conjI)
qed

section \<open>The owner-filtered listing\<close>

text \<open>
  Claim C8. The listing of the file that takes an owner (\<open>user_context\<close>) returns exactly
  the rows of the table whose owner is that user and that are active: no row of another
  owner and no inactive row is in its payload. The listing of src/index.ts takes no
  owner; its payload is the one it gives on the active rows alone.
\<close>

theorem list_workspaces_isolation:
  "(\<forall>r \<in> set (select_workspaces_of_user db U).
      r \<in> set (workspaces db) \<and> userId r = U \<and> isActive r) \<and>
   set (select_workspaces_of_user db U) =
     {r. r \<in> set (workspaces db) \<and> userId r = U \<and> isActive r} \<and>
   list_workspaces_B e db U =
     \<lparr>result = tool_text (''Found '' @ show_nat (length (select_workspaces_of_user db U)) @
         '' workspace(s):'' @ nl @
         JSON_stringify e (JArray (map workspace_json (select_workspaces_of_user db U)))),
      db_after = db, calls = []\<rparr> \<and>
   result (list_workspaces e db) =
     result (list_workspaces e (db\<lparr>workspaces := filter isActive (workspaces db)\<rparr>))"
proof -
  have "set (select_workspaces_of_user db U) =
     {r. r \<in> set (workspaces db) \<and> userId r = U \<and> isActive r}"
    by (auto simp: select_workspaces_of_user_def)
  moreover have "list_workspaces_B e db U =
     \<lparr>result = tool_text (''Found '' @ show_nat (length (select_workspaces_of_user db U)) @
         '' workspace(s):'' @ nl @
         JSON_stringify e (JArray (map workspace_json (select_workspaces_of_user db U)))),
      db_after = db, calls = []\<rparr>"
    by (simp add: list_workspaces_B_def Let_def)
  moreover have "result (list_workspaces e db) =
     result (list_workspaces e (db\<lparr>workspaces := filter isActive (workspaces db)\<rparr>))"
    by (simp add: list_workspaces_def Let_def)
  ultimately show ?thesis by simp
qed

theorem list_workspaces_isolation_witness:
  "select_workspaces_of_user acme_db ''U1'' = [acme_workspace] \<and>
   userId old_workspace = ''U1'' \<and> \<not> isActive old_workspace \<and>
   select_workspaces_of_user acme_db ''U2'' = []"
proof -
  have rows: "select_workspaces_of_user acme_db ''U1'' = [acme_workspace]"
    "select_workspaces_of_user acme_db ''U2'' = []"
    by (simp_all add: select_workspaces_of_user_def acme_db_def acme_workspace_def
        old_workspace_def)
  from list_workspaces_isolation [of acme_db "''U1''" chat_env]
  have "\<forall>r \<in> set (select_workspaces_of_user acme_db ''U1'').
      r \<in> set (workspaces acme_db) \<and> userId r = ''U1'' \<and> isActive r"
    by (rule conjunct1)
  then have "userId acme_workspace = ''U1'' \<and> isActive acme_workspace"
    by (simp add: rows)
  then show ?thesis
    by (simp add: rows old_workspace_def)
qed

section \<open>The paginated ledger query\<close>

lemma conditions_hold_iff:
  "conditions_hold fw fc m \<longleftrightarrow>
     (case fw of None \<Rightarrow> True | Some s \<Rightarrow> s = [] \<or> workspaceId m = s) \<and>
     (case fc of None \<Rightarrow> True | Some s \<Rightarrow> s = [] \<or> channelId m = s)"
  by (auto simp: conditions_hold_def truthy_def split: option.splits)

lemma sql_integer_of_int:
  "- (2 ^ 63) < i \<Longrightarrow> i < 2 ^ 63 \<Longrightarrow> sql_integer (of_int i) = Some i"
proof -
  assume a: "- (2 ^ 63) < i" "i < 2 ^ 63"
  have "(of_int i :: rat) < of_int (2 ^ 63)" "(of_int (- (2 ^ 63)) :: rat) < of_int i"
    using a by (simp_all only: of_int_less_iff)
  then show ?thesis
    by (simp add: sql_integer_def)
qed

lemma sql_integer_fraction: "of_int \<lfloor>q\<rfloor> \<noteq> q \<Longrightarrow> sql_integer q = None"
  by (simp add: sql_integer_def)

lemma get_posted_messages_B_pure:
  "db_after (get_posted_messages_B e db fw fc limit offset) = db \<and>
   calls (get_posted_messages_B e db fw fc limit offset) = []"
  by (simp add: get_posted_messages_B_def split: sum.splits)

lemma sqlite_order_ok:
  "order_by_createdAt_desc db = sqlite_order \<Longrightarrow> orders_newest_first db"
proof -
  assume o: "order_by_createdAt_desc db = sqlite_order"
  have a: "sorted_wrt (\<lambda>a b. pm_createdAt b \<le> pm_createdAt a) (rev (sort_key pm_createdAt rows))"
    for rows
    using sorted_sort_key [of pm_createdAt rows] by (simp add: sorted_wrt_rev sorted_map)
  have b: "sorted_wrt (\<lambda>a b. pm_createdAt b \<le> pm_createdAt a)
             (sort_key (\<lambda>m. - pm_createdAt m) rows)" for rows
    using sorted_sort_key [of "\<lambda>m. - pm_createdAt m" rows] by (simp add: sorted_map)
  show ?thesis
    unfolding orders_newest_first_def o by (simp add: sqlite_order_def a b)
qed

lemma floor_five_halves: "\<lfloor>5 / 2 :: rat\<rfloor> = 2"
  by (rule floor_unique) simp_all

lemma five_halves_fraction: "rat_of_int \<lfloor>5 / 2 :: rat\<rfloor> \<noteq> 5 / 2"
  by (simp add: floor_five_halves)

text \<open>
  Claim C7, as the code has it. A filter counts as supplied when its argument is a
  non-empty string; an empty string is treated like an absent argument. Let the engine
  order as SQL asks. The listing \<open>rows\<close> of a query holds exactly the rows of the ledger
  that match every supplied filter, each once, newest first (rows of equal creation time
  in the order the engine gives them). For a whole-number limit and offset within the
  bounds of the tool's schema, \<open>get_posted_messages\<close> answers with the page \<open>limit\<close>,
  \<open>offset\<close> of that listing. The schema also admits numbers that are not whole: for such
  a limit or offset the query fails and the tool answers with the engine's error. In
  every case the database is left as it was and no request is sent.
\<close>

theorem get_posted_messages_query:
  assumes eng: "orders_newest_first db"
    and rows: "rows = order_by_createdAt_desc db
                 (case fw of None \<Rightarrow> None | Some s \<Rightarrow> if s = [] then None else Some s)
                 (case fc of None \<Rightarrow> None | Some s \<Rightarrow> if s = [] then None else Some s)
                 (filter
                    (\<lambda>m. (case fw of None \<Rightarrow> True | Some s \<Rightarrow> s = [] \<or> workspaceId m = s) \<and>
                         (case fc of None \<Rightarrow> True | Some s \<Rightarrow> s = [] \<or> channelId m = s))
                    (postedMessages db))"
    and page: "page = take (nat l) (drop (nat off) rows)"
  shows "mset rows =
           mset (filter
             (\<lambda>m. (case fw of None \<Rightarrow> True | Some s \<Rightarrow> s = [] \<or> workspaceId m = s) \<and>
                  (case fc of None \<Rightarrow> True | Some s \<Rightarrow> s = [] \<or> channelId m = s))
             (postedMessages db)) \<and>
         sorted_wrt (\<lambda>a b. pm_createdAt b \<le> pm_createdAt a) rows \<and>
         (\<forall>m \<in> set page.
            m \<in> set (postedMessages db) \<and>
            (case fw of None \<Rightarrow> True | Some s \<Rightarrow> s = [] \<or> workspaceId m = s) \<and>
            (case fc of None \<Rightarrow> True | Some s \<Rightarrow> s = [] \<or> channelId m = s)) \<and>
         sorted_wrt (\<lambda>a b. pm_createdAt b \<le> pm_createdAt a) page \<and>
         (1 \<le> l \<and> l \<le> 1000 \<and> 0 \<le> off \<and> off < 2 ^ 63 \<longrightarrow>
            length page \<le> nat l \<and>
            select_posted_messages db fw fc (of_int l) (of_int off) = Inr page \<and>
            get_posted_messages_B e db fw fc (of_int l) (of_int off) =
              \<lparr>result =
                 \<lparr>content = ''Found '' @ show_nat (length page) @ '' posted message(s):'' @ nl @
                    JSON_stringify e (JArray (map posted_message_json page)),
                  isError = False\<rparr>,
               db_after = db, calls = []\<rparr>) \<and>
         (of_int \<lfloor>limit\<rfloor> \<noteq> limit \<or> of_int \<lfloor>offset\<rfloor> \<noteq> offset \<longrightarrow>
            get_posted_messages_B e db fw fc limit offset =
              \<lparr>result =
                 \<lparr>content = ''Error getting posted messages: '' @ datatype_mismatch db,
                  isError = True\<rparr>,
               db_after = db, calls = []\<rparr>) \<and>
         db_after (get_posted_messages_B e db fw fc limit offset) = db \<and>
         calls (get_posted_messages_B e db fw fc limit offset) = []"
proof -
  let ?match = "\<lambda>m. (case fw of None \<Rightarrow> True | Some s \<Rightarrow> s = [] \<or> workspaceId m = s) \<and>
            (case fc of None \<Rightarrow> True | Some s \<Rightarrow> s = [] \<or> channelId m = s)"
  have cond: "conditions_hold fw fc = ?match"
    by (rule ext) (rule conditions_hold_iff)
  have pushed: "pushed v = (case v of None \<Rightarrow> None | Some s \<Rightarrow> if s = [] then None else Some s)"
    for v
    by (simp add: pushed_def truthy_def split: option.splits)
  have rows': "rows = order_by_createdAt_desc db (pushed fw) (pushed fc)
      (filter (conditions_hold fw fc) (postedMessages db))"
    unfolding rows pushed cond ..
  have exact: "mset rows = mset (filter ?match (postedMessages db))"
    unfolding rows using eng by (simp only: orders_newest_first_def)
  have sorted: "sorted_wrt (\<lambda>a b. pm_createdAt b \<le> pm_createdAt a) rows"
    unfolding rows using eng by (simp only: orders_newest_first_def)
  have set_rows: "set rows = {m \<in> set (postedMessages db). ?match m}"
    using arg_cong [OF exact, of set_mset] by simp
  have members: "\<forall>m \<in> set page. m \<in> set (postedMessages db) \<and> ?match m"
  proof
    fix m assume "m \<in> set page"
    then have "m \<in> set rows"
      unfolding page by (blast dest: in_set_takeD in_set_dropD)
    then show "m \<in> set (postedMessages db) \<and> ?match m"
      unfolding set_rows by simp
  qed
  have sorted_page: "sorted_wrt (\<lambda>a b. pm_createdAt b \<le> pm_createdAt a) page"
    unfolding page by (intro sorted_wrt_take sorted_wrt_drop sorted)
  have whole: "length page \<le> nat l \<and>
            select_posted_messages db fw fc (of_int l) (of_int off) = Inr page \<and>
            get_posted_messages_B e db fw fc (of_int l) (of_int off) =
              \<lparr>result =
                 \<lparr>content = ''Found '' @ show_nat (length page) @ '' posted message(s):'' @ nl @
                    JSON_stringify e (JArray (map posted_message_json page)),
                  isError = False\<rparr>,
               db_after = db, calls = []\<rparr>"
    if b: "1 \<le> l \<and> l \<le> 1000 \<and> 0 \<le> off \<and> off < 2 ^ 63"
  proof -
    have l: "sql_integer (of_int l) = Some l"
      using b by (intro sql_integer_of_int) simp_all
    have off: "sql_integer (of_int off) = Some off"
      using b by (intro sql_integer_of_int) simp_all
    have sel: "select_posted_messages db fw fc (of_int l) (of_int off) = Inr page"
      using b by (simp add: select_posted_messages_def l off sql_limit_offset_def rows' page)
    have len: "length page \<le> nat l"
      unfolding page by simp
    show ?thesis
      using len sel by (simp add: get_posted_messages_B_def tool_text_def)
  qed
  have fraction: "get_posted_messages_B e db fw fc limit offset =
              \<lparr>result =
                 \<lparr>content = ''Error getting posted messages: '' @ datatype_mismatch db,
                  isError = True\<rparr>,
               db_after = db, calls = []\<rparr>"
    if f: "of_int \<lfloor>limit\<rfloor> \<noteq> limit \<or> of_int \<lfloor>offset\<rfloor> \<noteq> offset"
  proof -
    have "sql_integer limit = None \<or> sql_integer offset = None"
      using f by (elim disjE) (simp_all add: sql_integer_fraction)
    then have "select_posted_messages db fw fc limit offset = Inl (datatype_mismatch db)"
      by (elim disjE) (simp_all add: select_posted_messages_def split: option.splits)
    then show ?thesis
      by (simp add: get_posted_messages_B_def tool_error_def)
  qed
  have c5: "1 \<le> l \<and> l \<le> 1000 \<and> 0 \<le> off \<and> off < 2 ^ 63 \<longrightarrow>
            length page \<le> nat l \<and>
            select_posted_messages db fw fc (of_int l) (of_int off) = Inr page \<and>
            get_posted_messages_B e db fw fc (of_int l) (of_int off) =
              \<lparr>result =
                 \<lparr>content = ''Found '' @ show_nat (length page) @ '' posted message(s):'' @ nl @
                    JSON_stringify e (JArray (map posted_message_json page)),
                  isError = False\<rparr>,
               db_after = db, calls = []\<rparr>"
    using whole by (rule impI)
  have c6: "of_int \<lfloor>limit\<rfloor> \<noteq> limit \<or> of_int \<lfloor>offset\<rfloor> \<noteq> offset \<longrightarrow>
            get_posted_messages_B e db fw fc limit offset =
              \<lparr>result =
                 \<lparr>content = ''Error getting posted messages: '' @ datatype_mismatch db,
                  isError = True\<rparr>,
               db_after = db, calls = []\<rparr>"
    using fraction by (rule impI)
  note c7 = get_posted_messages_B_pure [of e db fw fc limit offset]
  show ?thesis
    apply (intro conjI)
    apply (rule exact)
    apply (rule sorted)
    apply (rule members)
    apply (rule sorted_page)
    apply (rule c5)
    apply (rule c6)
    apply (rule c7 [THEN conjunct1])
    apply (rule c7 [THEN conjunct2])
    done
qed

lemma ledger_channels:
  "channelId posted_one = ''A''" "channelId posted_two = ''B''" "channelId posted_three = ''A''"
  "channelId posted_four = ''B''"
  "workspaceId posted_one = ''w-2''" "workspaceId posted_two = ''w-2''"
  "workspaceId posted_three = ''w-2''" "workspaceId posted_four = ''w-2''"
  by (simp_all add: posted_one_def posted_two_def posted_three_def posted_four_def)

lemma ledger_times:
  "pm_createdAt posted_one = 10" "pm_createdAt posted_two = 20"
  "pm_createdAt posted_three = 30" "pm_createdAt posted_four = 30"
  by (simp_all add: posted_one_def posted_two_def posted_three_def posted_four_def)

lemma ledger_rows:
  "postedMessages ledger_db = [posted_one, posted_two, posted_three, posted_four]"
  by (simp add: ledger_db_def)

lemma ledger_engine:
  "order_by_createdAt_desc ledger_db = sqlite_order"
  "datatype_mismatch ledger_db = ''datatype mismatch''"
  by (simp_all add: ledger_db_def)

theorem get_posted_messages_query_witness:
  "select_posted_messages ledger_db (Some ''w-2'') (Some ''A'') 50 0 =
     Inr [posted_three, posted_one] \<and>
   channelId posted_three = ''A'' \<and> channelId posted_one = ''A'' \<and>
   pm_createdAt posted_one \<le> pm_createdAt posted_three \<and>
   get_posted_messages_B chat_env ledger_db (Some ''w-2'') (Some ''A'') 50 0 =
     \<lparr>result = \<lparr>content = ''Found 2 posted message(s):'' @ [CHR 0x0A] @ ''[...]'',
                 isError = False\<rparr>,
      db_after = ledger_db, calls = []\<rparr> \<and>
   get_posted_messages_B chat_env ledger_db (Some ''w-2'') (Some ''A'') (5 / 2) 0 =
     \<lparr>result = \<lparr>content = ''Error getting posted messages: '' @ datatype_mismatch ledger_db,
                 isError = True\<rparr>,
      db_after = ledger_db, calls = []\<rparr>"
proof -
  have rows: "order_by_createdAt_desc ledger_db
                 (case Some ''w-2'' of None \<Rightarrow> None | Some s \<Rightarrow> if s = [] then None else Some s)
                 (case Some ''A'' of None \<Rightarrow> None | Some s \<Rightarrow> if s = [] then None else Some s)
                 (filter
                    (\<lambda>m. (case Some ''w-2'' of None \<Rightarrow> True
                           | Some s \<Rightarrow> s = [] \<or> workspaceId m = s) \<and>
                         (case Some ''A'' of None \<Rightarrow> True | Some s \<Rightarrow> s = [] \<or> channelId m = s))
                    (postedMessages ledger_db)) =
     [posted_three, posted_one]"
    by (simp add: ledger_engine sqlite_order_def ledger_rows ledger_channels ledger_times)
  have page: "[posted_three, posted_one] = take (nat 50) (drop (nat 0) [posted_three, posted_one])"
    by simp
  note th = get_posted_messages_query [OF sqlite_order_ok [OF ledger_engine(1)] rows [symmetric]
      page, of chat_env "5 / 2" 0]
  have json: "JSON_stringify chat_env = (\<lambda>v. ''[...]'')"
    by (simp add: chat_env_def demo_env_def)
  have sel: "select_posted_messages ledger_db (Some ''w-2'') (Some ''A'') 50 0 =
     Inr [posted_three, posted_one]"
    and found: "get_posted_messages_B chat_env ledger_db (Some ''w-2'') (Some ''A'') 50 0 =
     \<lparr>result = \<lparr>content = ''Found 2 posted message(s):'' @ [CHR 0x0A] @ ''[...]'',
                 isError = False\<rparr>,
      db_after = ledger_db, calls = []\<rparr>"
    using th [THEN conjunct2, THEN conjunct2, THEN conjunct2, THEN conjunct2, THEN conjunct1]
    by (simp_all add: json nl_def show_nat_small)
  have failed: "get_posted_messages_B chat_env ledger_db (Some ''w-2'') (Some ''A'') (5 / 2) 0 =
     \<lparr>result = \<lparr>content = ''Error getting posted messages: '' @ datatype_mismatch ledger_db,
                 isError = True\<rparr>,
      db_after = ledger_db, calls = []\<rparr>"
    using th [THEN conjunct2, THEN conjunct2, THEN conjunct2, THEN conjunct2, THEN conjunct2,
        THEN conjunct1] five_halves_fraction
    by (simp only: simp_thms)
  from th have "\<forall>m \<in> set [posted_three, posted_one].
            m \<in> set (postedMessages ledger_db) \<and>
            (case Some ''w-2'' of None \<Rightarrow> True | Some s \<Rightarrow> s = [] \<or> workspaceId m = s) \<and>
            (case Some ''A'' of None \<Rightarrow> True | Some s \<Rightarrow> s = [] \<or> channelId m = s)"
    by (elim conjE)
  then have chans: "channelId posted_three = ''A'' \<and> channelId posted_one = ''A''"
    by simp
  from th have "sorted_wrt (\<lambda>a b. pm_createdAt b \<le> pm_createdAt a) [posted_three, posted_one]"
    by (elim conjE)
  then have times: "pm_createdAt posted_one \<le> pm_createdAt posted_three"
    by simp
  from sel chans times found failed show ?thesis
    by (intro conjI) simp_all
qed

theorem get_posted_messages_query_counterexample:
  "select_posted_messages ledger_db None (Some '''') 50 0 =
     Inr [posted_four, posted_three, posted_two, posted_one] \<and>
   filter (\<lambda>m. channelId m = '''') (postedMessages ledger_db) = [] \<and>
   result (get_posted_messages_B chat_env ledger_db None None (5 / 2) 0) =
     \<lparr>content = ''Error getting posted messages: '' @ datatype_mismatch ledger_db,
      isError = True\<rparr>"
proof -
  have whole: "sql_integer 50 = Some 50" "sql_integer 0 = Some 0"
    using sql_integer_of_int [of 50] sql_integer_of_int [of 0] by simp_all
  have fraction: "sql_integer (5 / 2) = None"
    by (rule sql_integer_fraction) (rule five_halves_fraction)
  have all: "select_posted_messages ledger_db None (Some '''') 50 0 =
     Inr [posted_four, posted_three, posted_two, posted_one]"
    by (simp add: select_posted_messages_def whole sql_limit_offset_def pushed_def
        conditions_hold_def truthy_def ledger_rows ledger_times ledger_engine sqlite_order_def)
  have none: "filter (\<lambda>m. channelId m = '''') (postedMessages ledger_db) = []"
    by (simp add: ledger_rows ledger_channels)
  have failed: "result (get_posted_messages_B chat_env ledger_db None None (5 / 2) 0) =
     \<lparr>content = ''Error getting posted messages: '' @ datatype_mismatch ledger_db,
      isError = True\<rparr>"
    by (simp add: get_posted_messages_B_def select_posted_messages_def fraction tool_error_def)
  from all none failed show ?thesis
    by (intro conjI)
qed

section \<open>The credential cipher\<close>

lemma decode1: "b < 0x80 \<Longrightarrow> utf8_decode (b # rest) = b # utf8_decode rest"
  by (simp add: utf8_decode.simps)

lemma decode2:
  "2 \<le> q \<Longrightarrow> q < 32 \<Longrightarrow> r < 64 \<Longrightarrow>
   utf8_decode ((0xC0 + q) # (0x80 + r) # rest) = (q * 64 + r) # utf8_decode rest"
  by (simp add: utf8_decode.simps continuation_def)

lemma decode3:
  "a < 16 \<Longrightarrow> q < 64 \<Longrightarrow> r < 64 \<Longrightarrow> (a = 0 \<longrightarrow> 32 \<le> q) \<Longrightarrow> (a = 13 \<longrightarrow> q < 32) \<Longrightarrow>
   utf8_decode ((0xE0 + a) # (0x80 + q) # (0x80 + r) # rest) =
     (a * 4096 + q * 64 + r) # utf8_decode rest"
  by (auto simp: utf8_decode.simps continuation_def)

lemma decode4:
  "a < 5 \<Longrightarrow> p < 64 \<Longrightarrow> q < 64 \<Longrightarrow> r < 64 \<Longrightarrow> (a = 0 \<longrightarrow> 16 \<le> p) \<Longrightarrow> (a = 4 \<longrightarrow> p < 16) \<Longrightarrow>
   utf8_decode ((0xF0 + a) # (0x80 + p) # (0x80 + q) # (0x80 + r) # rest) =
     (a * 262144 + p * 4096 + q * 64 + r) # utf8_decode rest"
  by (auto simp: utf8_decode.simps continuation_def)

lemma digits64:
  fixes n :: nat
  obtains q r where "n = q * 64 + r" "r < 64" "q = n div 64" "r = n mod 64"
  by (metis div_mult_mod_eq mod_less_divisor zero_less_numeral)

lemma utf8_decode_utf8:
  assumes "scalar cp"
  shows "utf8_decode (utf8 cp @ rest) = cp # utf8_decode rest"
proof -
  obtain n1 r where r: "cp = n1 * 64 + r" "r < 64" "n1 = cp div 64" "r = cp mod 64"
    by (rule digits64)
  obtain n2 q where q: "n1 = n2 * 64 + q" "q < 64" "n2 = n1 div 64" "q = n1 mod 64"
    by (rule digits64)
  obtain n3 p where p: "n2 = n3 * 64 + p" "p < 64" "n3 = n2 div 64" "p = n2 mod 64"
    by (rule digits64)
  have d2: "cp div 4096 = n2"
    unfolding q(3) r(3) by (simp add: div_mult2_eq [symmetric])
  have d3: "cp div 262144 = n3"
    unfolding p(3) q(3) r(3) by (simp add: div_mult2_eq [symmetric])
  consider "cp < 0x80" | "0x80 \<le> cp" "cp < 0x800" | "0x800 \<le> cp" "cp < 0x10000"
    | "0x10000 \<le> cp"
    by linarith
  then show ?thesis
  proof cases
    case 1
    then show ?thesis
      by (simp add: utf8_def decode1)
  next
    case 2
    have "utf8_decode ((0xC0 + n1) # (0x80 + r) # rest) = (n1 * 64 + r) # utf8_decode rest"
      using 2 r(1,2) by (intro decode2) linarith+
    then show ?thesis
      using 2 r(1) unfolding utf8_def r(3) [symmetric] r(4) [symmetric] by simp
  next
    case 3
    have "utf8_decode ((0xE0 + n2) # (0x80 + q) # (0x80 + r) # rest)
        = (n2 * 4096 + q * 64 + r) # utf8_decode rest"
    proof (intro decode3)
      show "n2 < 16" using 3 r(1) q(1) by linarith
      show "q < 64" by (rule q(2))
      show "r < 64" by (rule r(2))
      show "n2 = 0 \<longrightarrow> 32 \<le> q" using 3 r(1,2) q(1) by auto
      show "n2 = 13 \<longrightarrow> q < 32" using 3 assms r(1,2) q(1,2) unfolding scalar_def by auto
    qed
    moreover have "n2 * 4096 + q * 64 + r = cp"
      using r(1) q(1) by simp
    ultimately show ?thesis
      using 3 unfolding utf8_def d2 r(3) [symmetric] r(4) [symmetric] q(4) [symmetric] by simp
  next
    case 4
    have "utf8_decode ((0xF0 + n3) # (0x80 + p) # (0x80 + q) # (0x80 + r) # rest)
        = (n3 * 262144 + p * 4096 + q * 64 + r) # utf8_decode rest"
    proof (intro decode4)
      show "n3 < 5" using assms r(1) q(1) p(1) unfolding scalar_def by linarith
      show "p < 64" by (rule p(2))
      show "q < 64" by (rule q(2))
      show "r < 64" by (rule r(2))
      show "n3 = 0 \<longrightarrow> 16 \<le> p" using 4 r(1,2) q(1,2) p(1) by auto
      show "n3 = 4 \<longrightarrow> p < 16" using assms r(1,2) q(1,2) p(1) unfolding scalar_def by auto
    qed
    moreover have "n3 * 262144 + p * 4096 + q * 64 + r = cp"
      using r(1) q(1) p(1) by simp
    ultimately show ?thesis
      using 4 unfolding utf8_def d2 d3 r(3) [symmetric] r(4) [symmetric] q(4) [symmetric]
        p(4) [symmetric] q(3) [symmetric]
      by simp
  qed
qed

lemma utf8_decode_concat:
  "list_all scalar cps \<Longrightarrow> utf8_decode (concat (map utf8 cps)) = cps"
  by (induction cps) (simp_all add: utf8_decode.simps utf8_decode_utf8)

lemma surrogate_pair:
  assumes "is_high u" "is_low v"
  shows "utf16 (0x10000 + (u - 0xD800) * 0x400 + (v - 0xDC00)) = [u, v]"
    and "scalar (0x10000 + (u - 0xD800) * 0x400 + (v - 0xDC00))"
proof -
  define x where "x = u - 0xD800"
  define y where "y = v - 0xDC00"
  have x: "u = 0xD800 + x" "x < 0x400"
    using assms(1) unfolding is_high_def x_def by linarith+
  have y: "v = 0xDC00 + y" "y < 0x400"
    using assms(2) unfolding is_low_def y_def by linarith+
  show "utf16 (0x10000 + (u - 0xD800) * 0x400 + (v - 0xDC00)) = [u, v]"
    unfolding x_def [symmetric] y_def [symmetric] using x y by (simp add: utf16_def)
  show "scalar (0x10000 + (u - 0xD800) * 0x400 + (v - 0xDC00))"
    unfolding x_def [symmetric] y_def [symmetric] using x(2) y(2) by (simp add: scalar_def)
qed

lemma well_formed_code_points:
  "well_formed s \<Longrightarrow>
     list_all scalar (code_points s) \<and> concat (map utf16 (code_points s)) = s"
proof (induction s rule: code_points.induct)
  case 1
  then show ?case by simp
next
  case (2 u)
  then show ?case
    by (auto simp: scalar_def utf16_def is_high_def is_low_def)
next
  case (3 u v us)
  show ?case
  proof (cases "is_high u")
    case True
    with 3 have low: "is_low v" and wf: "well_formed us"
      by simp_all
    show ?thesis
      using 3(1) [OF conjI [OF True low] wf] True low surrogate_pair [OF True low] by simp
  next
    case False
    with 3 have u: "u < 0x10000" "\<not> is_low u" and wf: "well_formed (v # us)"
      by simp_all
    have "\<not> (is_high u \<and> is_low v)"
      using False by simp
    from 3(2) [OF this wf] show ?thesis
      using False u by (auto simp: scalar_def utf16_def is_high_def is_low_def)
  qed
qed

lemma decode_encode:
  assumes "well_formed s"
  shows "concat (map utf16 (utf8_decode (TextEncoder_encode s))) = s"
  using well_formed_code_points [OF assms]
  by (simp add: TextEncoder_encode_def utf8_decode_concat)

lemma encode_first:
  assumes "well_formed (u # us)"
  shows "\<exists>cp rest. TextEncoder_encode (u # us) = utf8 cp @ rest \<and> scalar cp \<and>
           (cp = u \<or> 0x10000 \<le> cp)"
proof (cases us)
  case Nil
  with assms have u: "u < 0x10000" "\<not> is_high u" "\<not> is_low u"
    by simp_all
  have "scalar u"
    using u by (auto simp: scalar_def is_high_def is_low_def)
  then show ?thesis
    using u unfolding Nil TextEncoder_encode_def
    by (intro exI [of _ u] exI [of _ "[]"]) simp
next
  case (Cons v vs)
  show ?thesis
  proof (cases "is_high u")
    case True
    with assms Cons have low: "is_low v"
      by simp
    have "0x10000 \<le> 0x10000 + (u - 0xD800) * 0x400 + (v - 0xDC00)"
      by simp
    then show ?thesis
      using True low surrogate_pair(2) [OF True low] unfolding Cons TextEncoder_encode_def
      by (intro exI [of _ "0x10000 + (u - 0xD800) * 0x400 + (v - 0xDC00)"]
          exI [of _ "concat (map utf8 (code_points vs))"]) simp
  next
    case False
    with assms Cons have u: "u < 0x10000" "\<not> is_low u"
      by simp_all
    have "scalar u"
      using False u by (auto simp: scalar_def is_high_def is_low_def)
    then show ?thesis
      using False u unfolding Cons TextEncoder_encode_def
      by (intro exI [of _ u] exI [of _ "concat (map utf8 (code_points (v # vs)))"]) simp
  qed
qed

lemma utf8_bom:
  assumes "take 3 (utf8 cp @ rest) = [0xEF, 0xBB, 0xBF]"
  shows "cp = 0xFEFF"
proof -
  obtain n1 r where r: "cp = n1 * 64 + r" "r < 64" "n1 = cp div 64" "r = cp mod 64"
    by (rule digits64)
  obtain n2 q where q: "n1 = n2 * 64 + q" "q < 64" "n2 = n1 div 64" "q = n1 mod 64"
    by (rule digits64)
  have d2: "cp div 4096 = n2"
    unfolding q(3) r(3) by (simp add: div_mult2_eq [symmetric])
  consider "cp < 0x80" | "0x80 \<le> cp" "cp < 0x800" | "0x800 \<le> cp" "cp < 0x10000"
    | "0x10000 \<le> cp"
    by linarith
  then show ?thesis
  proof cases
    case 1
    then show ?thesis
      using assms by (simp add: utf8_def)
  next
    case 2
    then have "n1 < 32"
      using r(1) by linarith
    then show ?thesis
      using assms 2 unfolding utf8_def r(3) [symmetric] by simp
  next
    case 3
    have "n2 = 15 \<and> q = 59 \<and> r = 63"
      using assms 3 unfolding utf8_def d2 r(3) [symmetric] r(4) [symmetric] q(4) [symmetric]
      by simp
    then show ?thesis
      using r(1) q(1) by simp
  next
    case 4
    then show ?thesis
      using assms by (simp add: utf8_def)
  qed
qed

lemma encode_no_bom:
  assumes "well_formed s" and "take 1 s \<noteq> [0xFEFF]"
  shows "take 3 (TextEncoder_encode s) \<noteq> [0xEF, 0xBB, 0xBF]"
proof (cases s)
  case Nil
  then show ?thesis
    by (simp add: TextEncoder_encode_def)
next
  case (Cons u us)
  from encode_first [OF assms(1) [unfolded Cons]] obtain cp rest where
    e: "TextEncoder_encode (u # us) = utf8 cp @ rest" "cp = u \<or> 0x10000 \<le> cp"
    by blast
  show ?thesis
  proof
    assume "take 3 (TextEncoder_encode s) = [0xEF, 0xBB, 0xBF]"
    then have "cp = 0xFEFF"
      unfolding Cons e(1) by (rule utf8_bom)
    then show False
      using e(2) assms(2) Cons by simp
  qed
qed

lemma TextDecoder_TextEncoder:
  assumes "well_formed s" and "take 1 s \<noteq> [0xFEFF]"
  shows "TextDecoder_decode (TextEncoder_encode s) = s"
  using encode_no_bom [OF assms] decode_encode [OF assms(1)]
  by (simp add: TextDecoder_decode_def)

lemma code_points_ascii: "\<forall>u \<in> set s. u < 0x80 \<Longrightarrow> code_points s = s"
  by (induction s rule: code_points.induct) (simp_all add: is_high_def is_low_def)

lemma encode_ascii: "\<forall>u \<in> set s. u < 0x80 \<Longrightarrow> TextEncoder_encode s = s"
proof -
  assume a: "\<forall>u \<in> set s. u < 0x80"
  have "concat (map utf8 s) = s"
    using a by (induction s) (simp_all add: utf8_def)
  then show ?thesis
    by (simp add: TextEncoder_encode_def code_points_ascii [OF a])
qed

lemma key_material_length: "length (key_material k) = 32"
  by (simp add: key_material_def)

lemma key_material_ascii:
  "\<forall>u \<in> set (take 32 k). u < 0x80 \<Longrightarrow> \<forall>u \<in> set (key_material k). u < 0x80"
  by (auto simp: key_material_def)

lemma import_ascii_key:
  assumes "\<forall>u \<in> set (take 32 k). u < 0x80"
  shows "import_aes_key (TextEncoder_encode (key_material k)) = Inr (key_material k)"
  by (simp add: encode_ascii [OF key_material_ascii [OF assms]] import_aes_key_def
      key_material_length)

lemma encrypt_decrypt:
  assumes seal_open: "\<forall>K iv d. aes_gcm_decrypt P K iv (aes_gcm_encrypt P K iv d) = Some d"
    and tag: "\<forall>K iv d. length (aes_gcm_encrypt P K iv d) = length d + 16"
    and b64: "\<forall>bytes. atob P (btoa P bytes) = Some bytes"
    and iv: "length iv = 12"
    and k: "\<forall>u \<in> set (take 32 k). u < 0x80"
    and same: "key_material k' = key_material k"
    and wf: "well_formed c" and bom: "take 1 c \<noteq> [0xFEFF]"
    and size: "length (TextEncoder_encode c) + 28 \<le> max_arguments P"
  shows "encrypt P iv c k =
           Inr (btoa P (iv @ aes_gcm_encrypt P (key_material k) iv (TextEncoder_encode c)))"
    and "decrypt P (btoa P (iv @ aes_gcm_encrypt P (key_material k) iv (TextEncoder_encode c))) k'
           = Inr c"
proof -
  let ?ct = "aes_gcm_encrypt P (key_material k) iv (TextEncoder_encode c)"
  have len: "length (iv @ ?ct) \<le> max_arguments P"
    using size tag iv by simp
  show "encrypt P iv c k = Inr (btoa P (iv @ ?ct))"
    using len
    by (simp add: encrypt_def Let_def import_ascii_key [OF k] fromCharCode_spread_def)
  have k': "\<forall>u \<in> set (take 32 k'). u < 0x80"
  proof -
    have "set (take 32 k') \<subseteq> set (key_material k')"
      by (simp add: key_material_def)
    then have "set (take 32 k') \<subseteq> set (key_material k)"
      by (simp only: same)
    then show ?thesis
      using key_material_ascii [OF k] by blast
  qed
  have imp: "import_aes_key (TextEncoder_encode (key_material k')) = Inr (key_material k)"
    using import_ascii_key [OF k'] by (simp only: same)
  show "decrypt P (btoa P (iv @ ?ct)) k' = Inr c"
    using iv
    by (simp add: decrypt_def Let_def b64 [rule_format] imp seal_open [rule_format]
        TextDecoder_TextEncoder [OF wf bom])
qed

lemma decrypt_accepts:
  assumes genuine: "\<forall>K iv ct d. aes_gcm_decrypt P K iv ct = Some d \<longrightarrow>
                      ct = aes_gcm_encrypt P K iv d"
    and tag: "\<forall>K iv d. length (aes_gcm_encrypt P K iv d) = length d + 16"
    and dec: "decrypt P blob k = Inr t"
  shows "\<exists>data d. atob P blob = Some data \<and> 28 \<le> length data \<and>
           drop 12 data =
             aes_gcm_encrypt P (TextEncoder_encode (key_material k)) (take 12 data) d \<and>
           t = TextDecoder_decode d"
proof -
  let ?K = "TextEncoder_encode (key_material k)"
  from dec obtain data where data: "atob P blob = Some data"
    by (auto simp: decrypt_def split: option.splits)
  from dec data obtain d where d: "aes_gcm_decrypt P ?K (take 12 data) (drop 12 data) = Some d"
    and t: "t = TextDecoder_decode d"
    by (auto simp: decrypt_def Let_def import_aes_key_def split: option.splits if_splits)
  from genuine d have ct: "drop 12 data = aes_gcm_encrypt P ?K (take 12 data) d"
    by simp
  have "16 \<le> length (drop 12 data)"
    unfolding ct using tag by simp
  then have "28 \<le> length data"
    by simp
  with data ct t show ?thesis
    by (intro exI [of _ data] exI [of _ d]) simp
qed


text \<open>
  Claim C2, as the code has it. Let the platform's cipher open what it sealed, accept
  only what it sealed (under the same key and nonce), and add a tag of 16 bytes, and let
  \<^verbatim>\<open>atob\<close> invert \<^verbatim>\<open>btoa\<close>; AES-GCM and base64 are such. Let \<open>c\<close> be a string without
  an unpaired surrogate that does not begin with U+FEFF, short enough for its sealed
  bytes to be passed as the arguments of one call, let the first 32 code units of the
  key \<open>k\<close> be ASCII, and let the nonce have 12 bytes. Then \<open>encrypt\<close> returns the base64
  text of the nonce followed by the sealed UTF-8 bytes of \<open>c\<close>, and \<open>decrypt\<close> gives \<open>c\<close>
  back from this text and \<open>k\<close> alone, and also from any key with the key material of
  \<open>k\<close>; any other key decrypts it only if the cipher seals some data to the very same
  bytes under that key's material. For every key, \<open>decrypt\<close> returns a text only for a
  blob that is the base64 text of at least 28 bytes, the bytes after the first 12 being
  what the cipher seals for some data under the first 12 as nonce and the key's
  material, and the text is the decoding of that data; every blob that decodes to
  fewer than 28 bytes, and every blob that is no base64 text, fails.
\<close>

theorem encrypt_decrypt_roundtrip:
  assumes seal_open: "\<forall>K iv d. aes_gcm_decrypt P K iv (aes_gcm_encrypt P K iv d) = Some d"
    and genuine: "\<forall>K iv ct d. aes_gcm_decrypt P K iv ct = Some d \<longrightarrow>
                    ct = aes_gcm_encrypt P K iv d"
    and tag: "\<forall>K iv d. length (aes_gcm_encrypt P K iv d) = length d + 16"
    and b64: "\<forall>bytes. atob P (btoa P bytes) = Some bytes"
  shows "(length iv = 12 \<and> (\<forall>u \<in> set (take 32 k). u < 0x80) \<and>
          key_material k' = key_material k \<and>
          well_formed c \<and> take 1 c \<noteq> [0xFEFF] \<and>
          length (TextEncoder_encode c) + 28 \<le> max_arguments P \<longrightarrow>
            encrypt P iv c k =
              Inr (btoa P (iv @ aes_gcm_encrypt P (key_material k) iv (TextEncoder_encode c))) \<and>
            decrypt P
              (btoa P (iv @ aes_gcm_encrypt P (key_material k) iv (TextEncoder_encode c))) k
              = Inr c \<and>
            decrypt P
              (btoa P (iv @ aes_gcm_encrypt P (key_material k) iv (TextEncoder_encode c))) k'
              = Inr c \<and>
            (\<forall>k2 t.
               decrypt P
                 (btoa P (iv @ aes_gcm_encrypt P (key_material k) iv (TextEncoder_encode c))) k2
                 = Inr t \<longrightarrow>
               (\<exists>d. aes_gcm_encrypt P (key_material k) iv (TextEncoder_encode c) =
                      aes_gcm_encrypt P (TextEncoder_encode (key_material k2)) iv d \<and>
                    t = TextDecoder_decode d))) \<and>
         (\<forall>blob t. decrypt P blob k = Inr t \<longrightarrow>
            (\<exists>data d. atob P blob = Some data \<and> 28 \<le> length data \<and>
               drop 12 data =
                 aes_gcm_encrypt P (TextEncoder_encode (key_material k)) (take 12 data) d \<and>
               t = TextDecoder_decode d)) \<and>
         (\<forall>blob data. atob P blob = Some data \<and> length data < 28 \<longrightarrow>
            isl (decrypt P blob k)) \<and>
         (\<forall>blob. atob P blob = None \<longrightarrow> isl (decrypt P blob k))"
proof -
  let ?blob = "btoa P (iv @ aes_gcm_encrypt P (key_material k) iv (TextEncoder_encode c))"
  have accepted: "\<exists>data d. atob P blob = Some data \<and> 28 \<le> length data \<and>
               drop 12 data =
                 aes_gcm_encrypt P (TextEncoder_encode (key_material k)) (take 12 data) d \<and>
               t = TextDecoder_decode d"
    if "decrypt P blob k = Inr t" for blob t k
    using that by (rule decrypt_accepts [OF genuine tag])
  have short: "isl (decrypt P blob k)" if "atob P blob = Some data \<and> length data < 28"
    for blob data
  proof (cases "decrypt P blob k")
    case (Inl err)
    then show ?thesis by simp
  next
    case (Inr t)
    from accepted [OF Inr] that show ?thesis
      by auto
  qed
  have invalid: "isl (decrypt P blob k)" if "atob P blob = None" for blob
    using that by (simp add: decrypt_def)
  have round: "encrypt P iv c k = Inr ?blob \<and> decrypt P ?blob k = Inr c \<and>
      decrypt P ?blob k' = Inr c \<and>
      (\<forall>k2 t. decrypt P ?blob k2 = Inr t \<longrightarrow>
         (\<exists>d. aes_gcm_encrypt P (key_material k) iv (TextEncoder_encode c) =
                aes_gcm_encrypt P (TextEncoder_encode (key_material k2)) iv d \<and>
              t = TextDecoder_decode d))"
    if h: "length iv = 12 \<and> (\<forall>u \<in> set (take 32 k). u < 0x80) \<and>
          key_material k' = key_material k \<and>
          well_formed c \<and> take 1 c \<noteq> [0xFEFF] \<and>
          length (TextEncoder_encode c) + 28 \<le> max_arguments P"
  proof -
    from h have iv: "length iv = 12" and k: "\<forall>u \<in> set (take 32 k). u < 0x80"
      and same: "key_material k' = key_material k"
      and wf: "well_formed c" and bom: "take 1 c \<noteq> [0xFEFF]"
      and size: "length (TextEncoder_encode c) + 28 \<le> max_arguments P"
      by simp_all
    note ed = encrypt_decrypt [OF seal_open tag b64 iv k _ wf bom size]
    have other: "\<exists>d. aes_gcm_encrypt P (key_material k) iv (TextEncoder_encode c) =
                aes_gcm_encrypt P (TextEncoder_encode (key_material k2)) iv d \<and>
              t = TextDecoder_decode d"
      if "decrypt P ?blob k2 = Inr t" for k2 t
    proof -
      from accepted [OF that] obtain data d where
        d: "atob P ?blob = Some data"
        "drop 12 data =
           aes_gcm_encrypt P (TextEncoder_encode (key_material k2)) (take 12 data) d"
        "t = TextDecoder_decode d"
        by blast
      from d(1) have data: "data = iv @ aes_gcm_encrypt P (key_material k) iv (TextEncoder_encode c)"
        by (simp add: b64 [rule_format])
      from d(2) have "aes_gcm_encrypt P (key_material k) iv (TextEncoder_encode c) =
          aes_gcm_encrypt P (TextEncoder_encode (key_material k2)) iv d"
        unfolding data using iv by simp
      with d(3) show ?thesis
        by blast
    qed
    show ?thesis
      using ed(1) ed(2) [OF refl] ed(2) [OF same] other by blast
  qed
  show ?thesis
    using round accepted [of _ k] short invalid by blast
qed

lemma toy_tag_length: "length (toy_tag K iv) = 16"
  by (simp add: toy_tag_def)

lemma toy_laws:
  "\<forall>K iv d. aes_gcm_decrypt toy_crypto K iv (aes_gcm_encrypt toy_crypto K iv d) = Some d"
  "\<forall>K iv ct d. aes_gcm_decrypt toy_crypto K iv ct = Some d \<longrightarrow>
     ct = aes_gcm_encrypt toy_crypto K iv d"
  "\<forall>K iv d. length (aes_gcm_encrypt toy_crypto K iv d) = length d + 16"
  "\<forall>bytes. atob toy_crypto (btoa toy_crypto bytes) = Some bytes"
proof -
  show "\<forall>K iv d. aes_gcm_decrypt toy_crypto K iv (aes_gcm_encrypt toy_crypto K iv d) = Some d"
    by (simp add: toy_crypto_def toy_tag_length)
  show "\<forall>K iv ct d. aes_gcm_decrypt toy_crypto K iv ct = Some d \<longrightarrow>
     ct = aes_gcm_encrypt toy_crypto K iv d"
  proof (intro allI impI)
    fix K iv ct d
    assume a: "aes_gcm_decrypt toy_crypto K iv ct = Some d"
    then have "drop (length ct - 16) ct = toy_tag K iv" "d = take (length ct - 16) ct"
      by (auto simp: toy_crypto_def split: if_splits)
    then have "ct = d @ toy_tag K iv"
      by (metis append_take_drop_id)
    then show "ct = aes_gcm_encrypt toy_crypto K iv d"
      by (simp add: toy_crypto_def)
  qed
  show "\<forall>K iv d. length (aes_gcm_encrypt toy_crypto K iv d) = length d + 16"
    by (simp add: toy_crypto_def toy_tag_length)
  show "\<forall>bytes. atob toy_crypto (btoa toy_crypto bytes) = Some bytes"
    by (simp add: toy_crypto_def)
qed

lemma abc_ascii:
  "\<forall>u \<in> set (take 32 abc). u < 0x80" "\<forall>u \<in> set (take 32 abc0). u < 0x80"
  by (simp_all add: abc_def abc0_def)

lemma abc_material: "key_material abc0 = key_material abc"
  by (simp add: key_material_def abc_def abc0_def eval_nat_numeral)

lemma greeting_bytes:
  "TextEncoder_encode greeting = [0x78, 0xC3, 0xA9, 0xE2, 0x82, 0xAC, 0xF0, 0x9F, 0x98, 0x80]"
  by (simp add: TextEncoder_encode_def greeting_def utf8_def is_high_def is_low_def)

lemma greeting_well_formed: "well_formed greeting" "take 1 greeting \<noteq> [0xFEFF]"
  by (simp_all add: greeting_def is_high_def is_low_def)

theorem encrypt_decrypt_roundtrip_witness:
  "encrypt toy_crypto toy_nonce greeting abc =
     Inr (toy_nonce @ [0x78, 0xC3, 0xA9, 0xE2, 0x82, 0xAC, 0xF0, 0x9F, 0x98, 0x80] @
          toy_tag (key_material abc) toy_nonce) \<and>
   decrypt toy_crypto
     (toy_nonce @ [0x78, 0xC3, 0xA9, 0xE2, 0x82, 0xAC, 0xF0, 0x9F, 0x98, 0x80] @
      toy_tag (key_material abc) toy_nonce) abc = Inr greeting \<and>
   decrypt toy_crypto
     (toy_nonce @ [0x78, 0xC3, 0xA9, 0xE2, 0x82, 0xAC, 0xF0, 0x9F, 0x98, 0x80] @
      toy_tag (key_material abc) toy_nonce) abc0 = Inr greeting \<and>
   isl (decrypt toy_crypto
     (toy_nonce @ [0x78, 0xC3, 0xA9, 0xE2, 0x82, 0xAC, 0xF0, 0x9F, 0x98, 0x80]) abc)"
proof -
  note th = encrypt_decrypt_roundtrip [OF toy_laws, of toy_nonce abc abc0 greeting]
  have n: "length toy_nonce = 12"
    by (simp add: toy_nonce_def)
  have size: "length (TextEncoder_encode greeting) + 28 \<le> max_arguments toy_crypto"
    by (simp add: greeting_bytes toy_crypto_def)
  have seal: "aes_gcm_encrypt toy_crypto K iv d = d @ toy_tag K iv" for K iv d
    by (simp add: toy_crypto_def)
  have b: "btoa toy_crypto x = x" "atob toy_crypto x = Some x" for x
    by (simp_all add: toy_crypto_def)
  from th [THEN conjunct1] n abc_ascii(1) abc_material greeting_well_formed size
  have round: "encrypt toy_crypto toy_nonce greeting abc =
     Inr (toy_nonce @ [0x78, 0xC3, 0xA9, 0xE2, 0x82, 0xAC, 0xF0, 0x9F, 0x98, 0x80] @
          toy_tag (key_material abc) toy_nonce) \<and>
   decrypt toy_crypto
     (toy_nonce @ [0x78, 0xC3, 0xA9, 0xE2, 0x82, 0xAC, 0xF0, 0x9F, 0x98, 0x80] @
      toy_tag (key_material abc) toy_nonce) abc = Inr greeting \<and>
   decrypt toy_crypto
     (toy_nonce @ [0x78, 0xC3, 0xA9, 0xE2, 0x82, 0xAC, 0xF0, 0x9F, 0x98, 0x80] @
      toy_tag (key_material abc) toy_nonce) abc0 = Inr greeting"
    by (simp add: seal b greeting_bytes)
  from th [THEN conjunct2, THEN conjunct2, THEN conjunct1, rule_format,
      of "toy_nonce @ [0x78, 0xC3, 0xA9, 0xE2, 0x82, 0xAC, 0xF0, 0x9F, 0x98, 0x80]"
         "toy_nonce @ [0x78, 0xC3, 0xA9, 0xE2, 0x82, 0xAC, 0xF0, 0x9F, 0x98, 0x80]"]
  have cut: "isl (decrypt toy_crypto
     (toy_nonce @ [0x78, 0xC3, 0xA9, 0xE2, 0x82, 0xAC, 0xF0, 0x9F, 0x98, 0x80]) abc)"
    by (simp add: b n)
  from round cut show ?thesis
    by (intro conjI) simp_all
qed

lemma toy_encrypt:
  assumes "\<forall>u \<in> set (take 32 k). u < 0x80"
  shows "encrypt toy_crypto iv text k =
     (if length iv + length (TextEncoder_encode text) + 16 \<le> 130000
      then Inr (iv @ TextEncoder_encode text @ toy_tag (key_material k) iv)
      else Inl ''Maximum call stack size exceeded'')"
  by (simp add: encrypt_def Let_def import_ascii_key [OF assms] fromCharCode_spread_def
      toy_crypto_def toy_tag_length)

lemma toy_decrypt:
  assumes "\<forall>u \<in> set (take 32 k). u < 0x80" and "length iv = 12"
  shows "decrypt toy_crypto (iv @ data @ toy_tag (key_material k) iv) k =
     Inr (TextDecoder_decode data)"
  using assms(2)
  by (simp add: decrypt_def Let_def import_ascii_key [OF assms(1)] toy_crypto_def
      toy_tag_length)

lemma decode_examples:
  "TextDecoder_decode [0x78] = [0x78]"
  "TextDecoder_decode [0xEF, 0xBF, 0xBD] = [0xFFFD]"
  "TextDecoder_decode [0xEF, 0xBB, 0xBF, 0x78] = [0x78]"
  by (simp_all add: TextDecoder_decode_def utf8_decode.simps utf16_def continuation_def)

lemma encode_examples:
  "TextEncoder_encode [0x78] = [0x78]"
  "TextEncoder_encode [0xD800] = [0xEF, 0xBF, 0xBD]"
  "TextEncoder_encode [0xFEFF, 0x78] = [0xEF, 0xBB, 0xBF, 0x78]"
  by (simp_all add: TextEncoder_encode_def utf8_def is_high_def is_low_def)

lemma encode_first_unit:
  "\<not> is_high u \<Longrightarrow> \<not> is_low u \<Longrightarrow> TextEncoder_encode (u # s) = utf8 u @ TextEncoder_encode s"
  by (cases s) (simp_all add: TextEncoder_encode_def)

lemma latin_key_length: "length (TextEncoder_encode (key_material [0xE9])) = 33"
proof -
  have m: "key_material [0xE9] = 0xE9 # replicate 31 0x30"
    by (simp add: key_material_def)
  have "TextEncoder_encode (replicate 31 0x30) = replicate 31 0x30"
    by (rule encode_ascii) simp
  then show ?thesis
    unfolding m by (simp add: encode_first_unit is_high_def is_low_def utf8_def)
qed

theorem encrypt_decrypt_roundtrip_counterexample:
  "abc0 \<noteq> abc \<and>
   encrypt toy_crypto toy_nonce [0x78] abc =
     Inr (toy_nonce @ [0x78] @ toy_tag (key_material abc) toy_nonce) \<and>
   decrypt toy_crypto (toy_nonce @ [0x78] @ toy_tag (key_material abc) toy_nonce) abc0 =
     Inr [0x78] \<and>
   isl (encrypt toy_crypto toy_nonce [0x78] [0xE9]) \<and>
   encrypt toy_crypto toy_nonce [0xD800] abc =
     Inr (toy_nonce @ [0xEF, 0xBF, 0xBD] @ toy_tag (key_material abc) toy_nonce) \<and>
   decrypt toy_crypto (toy_nonce @ [0xEF, 0xBF, 0xBD] @ toy_tag (key_material abc) toy_nonce) abc =
     Inr [0xFFFD] \<and>
   encrypt toy_crypto toy_nonce [0xFEFF, 0x78] abc =
     Inr (toy_nonce @ [0xEF, 0xBB, 0xBF, 0x78] @ toy_tag (key_material abc) toy_nonce) \<and>
   decrypt toy_crypto
     (toy_nonce @ [0xEF, 0xBB, 0xBF, 0x78] @ toy_tag (key_material abc) toy_nonce) abc =
     Inr [0x78] \<and>
   isl (encrypt toy_crypto toy_nonce (replicate 200000 0x78) abc)"
proof -
  have n: "length toy_nonce = 12"
    by (simp add: toy_nonce_def)
  have differ: "abc0 \<noteq> abc"
    by (simp add: abc_def abc0_def)
  have same_material: "decrypt toy_crypto (toy_nonce @ [0x78] @ toy_tag (key_material abc) toy_nonce) abc0 =
     Inr [0x78]"
    using toy_decrypt [OF abc_ascii(2) n, of "[0x78]"]
    by (simp only: abc_material decode_examples)
  have latin: "isl (encrypt toy_crypto toy_nonce [0x78] [0xE9])"
    by (simp add: encrypt_def Let_def import_aes_key_def latin_key_length)
  have long: "TextEncoder_encode (replicate 200000 0x78) = replicate 200000 0x78"
    by (rule encode_ascii) simp
  have big: "isl (encrypt toy_crypto toy_nonce (replicate 200000 0x78) abc)"
    by (simp add: toy_encrypt [OF abc_ascii(1)] long n)
  show ?thesis
    using differ same_material latin big
      toy_encrypt [OF abc_ascii(1), of toy_nonce "[0x78]"]
      toy_encrypt [OF abc_ascii(1), of toy_nonce "[0xD800]"]
      toy_encrypt [OF abc_ascii(1), of toy_nonce "[0xFEFF, 0x78]"]
      toy_decrypt [OF abc_ascii(1) n, of "[0xEF, 0xBF, 0xBD]"]
      toy_decrypt [OF abc_ascii(1) n, of "[0xEF, 0xBB, 0xBF, 0x78]"]
    by (simp add: encode_examples decode_examples n)
qed

end
